theory Spec2Isabelle
  imports Main "HOL-Library.Sublist"
begin

section \<open>Python values, errors and string primitives\<close>

text \<open>
  The retrieval orchestrator of the repository (\<^verbatim>\<open>src/rag/retriever.py\<close>,
  \<^verbatim>\<open>src/rag/pipeline.py\<close>, \<^verbatim>\<open>src/shared/bedrock.py\<close>) is embedded function by function.
  A Python \<^verbatim>\<open>str\<close> is a \<^typ>\<open>string\<close>; a character stands for the code point of the
  same number, so only code points below 256 are represented. Exceptions are values of
  \<open>error\<close>; a function that can raise returns \<open>error + 'a\<close>. A Python name that
  starts with an underscore is written without it: \<^verbatim>\<open>_deduplicate\<close> is \<open>deduplicate\<close>.
\<close>

datatype error =
    TypeError
  | AttributeError
  | IndexError
  | ValueError
  | BackendError string

text \<open>
  Python floats are kept abstract: the operations the code applies to a float
  (\<^verbatim>\<open>str\<close>, comparison with an integer) are parameters of the model, the fields
  \<open>float_str\<close> and \<open>float_ge\<close> of the environment below. So is the float format
  \<^verbatim>\<open>format(v, ".3f")\<close> of a value, the field \<open>format_3f\<close>, and so is
  \<^verbatim>\<open>str.capitalize()\<close>, the field \<open>capitalize\<close>: the capital forms of some characters
  below 256 lie above 255, or are two characters long.
\<close>

typedecl pyfloat

text \<open>
  The values found in document metadata and in decoded JSON responses. Lists and
  dictionaries nested inside metadata are outside the model.
\<close>

datatype pyval =
    PNone
  | PBool bool
  | PInt int
  | PFloat pyfloat
  | PStr string

subsection \<open>Decimal rendering of integers: \<^verbatim>\<open>str(n)\<close>\<close>

definition digit_char :: "nat \<Rightarrow> char" where
  "digit_char d = ''0123456789'' ! d"

fun nat_str :: "nat \<Rightarrow> string" where
  "nat_str n = (if n < 10 then [digit_char n] else nat_str (n div 10) @ [digit_char (n mod 10)])"

declare nat_str.simps [simp del]

definition int_str :: "int \<Rightarrow> string" where
  "int_str i = (if i < 0 then CHR ''-'' # nat_str (nat (- i)) else nat_str (nat i))"

subsection \<open>Whitespace, line breaks, case\<close>

text \<open>
  \<^verbatim>\<open>str.strip()\<close> removes the characters for which \<^verbatim>\<open>str.isspace\<close> holds; below 256
  these are 9 to 13, 28 to 32, 133 and 160.
\<close>

definition is_space :: "char \<Rightarrow> bool" where
  "is_space c = (let n = (of_char c :: nat) in
     (9 \<le> n \<and> n \<le> 13) \<or> (28 \<le> n \<and> n \<le> 32) \<or> n = 133 \<or> n = 160)"

definition strip_where :: "(char \<Rightarrow> bool) \<Rightarrow> string \<Rightarrow> string" where
  "strip_where P s = rev (dropWhile P (rev (dropWhile P s)))"

text \<open>\<^verbatim>\<open>s.strip()\<close>\<close>

definition py_strip :: "string \<Rightarrow> string" where
  "py_strip s = strip_where is_space s"

text \<open>\<^verbatim>\<open>s.strip(chars)\<close>: removes leading and trailing characters that occur in \<open>chars\<close>.\<close>

definition py_strip_chars :: "string \<Rightarrow> string \<Rightarrow> string" where
  "py_strip_chars chars s = strip_where (\<lambda>c. c \<in> set chars) s"

text \<open>
  \<^verbatim>\<open>str.splitlines()\<close>: the line boundaries below 256 are 10, 11, 12, 13, 28, 29, 30 and
  133, and the pair 13 10 is one boundary. No empty last line is produced.
\<close>

definition is_linebreak :: "char \<Rightarrow> bool" where
  "is_linebreak c = (let n = (of_char c :: nat) in
     (10 \<le> n \<and> n \<le> 13) \<or> (28 \<le> n \<and> n \<le> 30) \<or> n = 133)"

fun splitlines_from :: "string \<Rightarrow> string \<Rightarrow> string list" where
  "splitlines_from cur [] = (if cur = [] then [] else [rev cur])"
| "splitlines_from cur [c] =
     (if is_linebreak c then [rev cur] else [rev (c # cur)])"
| "splitlines_from cur (c # d # cs) =
     (if c = CHR 0x0D \<and> d = CHR 0x0A then rev cur # splitlines_from [] cs
      else if is_linebreak c then rev cur # splitlines_from [] (d # cs)
      else splitlines_from (c # cur) (d # cs))"

definition splitlines :: "string \<Rightarrow> string list" where
  "splitlines s = splitlines_from [] s"

text \<open>
  \<^verbatim>\<open>str.lower()\<close> below 256: the letters A to Z and the Latin-1 capitals 192 to 222
  (215, the multiplication sign, apart) move up by 32.
\<close>

definition lower_char :: "char \<Rightarrow> char" where
  "lower_char c = (let n = (of_char c :: nat) in
     if (65 \<le> n \<and> n \<le> 90) \<or> (192 \<le> n \<and> n \<le> 222 \<and> n \<noteq> 215) then char_of (n + 32) else c)"

definition py_lower :: "string \<Rightarrow> string" where
  "py_lower s = map lower_char s"

text \<open>\<^verbatim>\<open>sep.join(parts)\<close>\<close>

fun py_join :: "string \<Rightarrow> string list \<Rightarrow> string" where
  "py_join sep [] = []"
| "py_join sep [x] = x"
| "py_join sep (x # y # ys) = x @ sep @ py_join sep (y # ys)"

text \<open>
  \<^verbatim>\<open>xs[:k]\<close>: the first \<open>k\<close> elements for \<open>k \<ge> 0\<close>, all but the last \<open>-k\<close> for a
  negative \<open>k\<close>.
\<close>

definition py_slice_to :: "int \<Rightarrow> 'a list \<Rightarrow> 'a list" where
  "py_slice_to k xs = (if 0 \<le> k then take (nat k) xs else take (length xs - nat (- k)) xs)"

text \<open>\<^verbatim>\<open>xs[i]\<close>: an index from 0 counts from the front, a negative one from the
  back; outside the list it raises \<^verbatim>\<open>IndexError\<close>.\<close>

definition py_index :: "'a list \<Rightarrow> int \<Rightarrow> error + 'a" where
  "py_index xs i =
     (if 0 \<le> i \<and> i < int (length xs) then Inr (xs ! nat i)
      else if i < 0 \<and> - int (length xs) \<le> i then Inr (xs ! nat (int (length xs) + i))
      else Inl IndexError)"

section \<open>Data model\<close>

text \<open>
  A LangChain \<^verbatim>\<open>Document\<close>: the text of a chunk and its metadata dictionary.
\<close>

record document =
  page_content :: string
  metadata :: "string \<rightharpoonup> pyval"

text \<open>\<^verbatim>\<open>d.get(key, default)\<close>\<close>

definition dict_get :: "(string \<rightharpoonup> 'v) \<Rightarrow> string \<Rightarrow> 'v \<Rightarrow> 'v" where
  "dict_get d k dflt = (case d k of None \<Rightarrow> dflt | Some v \<Rightarrow> v)"

text \<open>A chat message of a prompt, and the content of a chat model's response:
  a plain text or a list of segments, each a text or a dictionary.\<close>

datatype role = System | Human

type_synonym message = "role \<times> string"

datatype segment = SegStr string | SegDict "string \<rightharpoonup> pyval"

datatype content = Text string | Segments "segment list"

text \<open>One element of the \<^verbatim>\<open>results\<close> list of a rerank response: a JSON object, or
  any other JSON value (on which \<^verbatim>\<open>.get\<close> raises).\<close>

datatype rerank_result = ResultObj "string \<rightharpoonup> pyval" | ResultOther

text \<open>The calls made to the external services, in the order they are made.\<close>

datatype call =
    SearchCall string int
  | QueryLLMCall "message list"
  | AnswerLLMCall "message list"
  | TextGenCall string string string
  | RerankCall string string "string list" int

text \<open>
  The external collaborators. Each one is a function of the calls made so far and of
  its arguments, and either raises or returns:
  \<^item> \<open>similarity_search\<close> is \<^verbatim>\<open>vector_store.similarity_search(query, k=k)\<close>;
  \<^item> \<open>query_llm\<close> is \<^verbatim>\<open>self._query_llm.invoke(messages)\<close>, giving the response's content;
  \<^item> \<open>answer_llm\<close> is \<^verbatim>\<open>self.answer_llm.invoke(messages)\<close>;
  \<^item> \<open>text_model\<close> is the \<^verbatim>\<open>invoke_model\<close> call of \<^verbatim>\<open>invoke_text_generation\<close> with the
    decoding of its body down to the list \<^verbatim>\<open>output.message.content\<close>, a list of
    objects; any other body is an error of this call;
  \<^item> \<open>rerank_model\<close> is the \<^verbatim>\<open>invoke_model\<close> call of \<^verbatim>\<open>invoke_rerank\<close> with the
    decoding of its body down to \<^verbatim>\<open>body.get("results", [])\<close>; a body on which the
    decoding or the iteration raises is an error of this call;
  \<^item> the operations on floats, and \<^verbatim>\<open>str.capitalize()\<close>.
\<close>

record env =
  similarity_search :: "call list \<Rightarrow> string \<Rightarrow> int \<Rightarrow> error + document list"
  query_llm :: "call list \<Rightarrow> message list \<Rightarrow> error + content"
  answer_llm :: "call list \<Rightarrow> message list \<Rightarrow> error + content"
  text_model :: "call list \<Rightarrow> string \<Rightarrow> string \<Rightarrow> string \<Rightarrow> error + (string \<rightharpoonup> pyval) list"
  rerank_model :: "call list \<Rightarrow> string \<Rightarrow> string \<Rightarrow> string list \<Rightarrow> int \<Rightarrow> error + rerank_result list"
  float_str :: "pyfloat \<Rightarrow> string"
  float_ge :: "pyfloat \<Rightarrow> int \<Rightarrow> bool"
  format_3f :: "pyval \<Rightarrow> error + string"
  capitalize :: "string \<Rightarrow> string"

text \<open>\<^verbatim>\<open>str(v)\<close>\<close>

fun py_str :: "env \<Rightarrow> pyval \<Rightarrow> string" where
  "py_str E PNone = ''None''"
| "py_str E (PBool b) = (if b then ''True'' else ''False'')"
| "py_str E (PInt i) = int_str i"
| "py_str E (PFloat f) = float_str E f"
| "py_str E (PStr s) = s"

text \<open>The fields of \<^verbatim>\<open>Settings\<close> that the orchestrator reads. The three that share a
  name with a field of the retriever carry the prefix \<open>cfg\<close>.\<close>

record Settings =
  bedrock_chat_model_id :: string
  bedrock_rerank_model_id :: "string option"
  vector_search_k :: int
  vector_search_k_rerank :: int
  cfg_enable_query_fusion :: bool
  cfg_fusion_variant_count :: int
  cfg_enable_hyde :: bool

text \<open>\<^verbatim>\<open>AuroraPGVectorRetriever\<close>. The vector store and the chat model it holds are the
  services \<open>similarity_search\<close> and \<open>query_llm\<close> of the environment.\<close>

record retriever =
  settings :: Settings
  primary_k :: int
  final_k :: int
  enable_query_fusion :: bool
  enable_hyde :: bool
  fusion_variant_count :: int
  rerank_model_id :: "string option"
  last_query_variants :: "string list"
  last_hypothetical_document :: "string option"

text \<open>\<^verbatim>\<open>AuroraPGVectorRetriever.__init__\<close>\<close>

definition retriever_init :: "Settings \<Rightarrow> retriever" where
  "retriever_init st =
     \<lparr> settings = st,
       primary_k = vector_search_k st,
       final_k = max (vector_search_k_rerank st) 1,
       enable_query_fusion = cfg_enable_query_fusion st,
       enable_hyde = cfg_enable_hyde st,
       fusion_variant_count = max (cfg_fusion_variant_count st) 1,
       rerank_model_id = bedrock_rerank_model_id st,
       last_query_variants = [],
       last_hypothetical_document = None \<rparr>"

text \<open>The mutable world of a request: the fields of the \<^verbatim>\<open>RAGPipeline\<close> object shared by
  all requests (its settings and its retriever; its chat model is the service
  \<open>answer_llm\<close>), and the log of calls to the services.\<close>

record world =
  pipeline_settings :: Settings
  the_retriever :: retriever
  calls :: "call list"

section \<open>Deduplication\<close>

text \<open>
  The key of \<^verbatim>\<open>_deduplicate\<close>:
  \<^verbatim>\<open>doc.metadata.get("source", "") + str(doc.metadata.get("chunk_id", ""))\<close>, replaced by
  \<^verbatim>\<open>doc.page_content[:100]\<close> when it is the empty string. The \<^verbatim>\<open>+\<close> raises
  \<^verbatim>\<open>TypeError\<close> when the source is not a string.
\<close>

definition doc_key :: "env \<Rightarrow> document \<Rightarrow> error + string" where
  "doc_key E doc =
     (case dict_get (metadata doc) ''source'' (PStr []) of
        PStr src \<Rightarrow>
          (let key = src @ py_str E (dict_get (metadata doc) ''chunk_id'' (PStr []))
           in Inr (if key \<noteq> [] then key else py_slice_to 100 (page_content doc)))
      | _ \<Rightarrow> Inl TypeError)"

text \<open>The loop of \<^verbatim>\<open>_deduplicate\<close>, with its dictionary \<open>seen\<close> and its list \<open>ordered\<close>.\<close>

fun dedup_loop ::
  "env \<Rightarrow> (string \<rightharpoonup> document) \<Rightarrow> document list \<Rightarrow> document list \<Rightarrow> error + document list" where
  "dedup_loop E seen ordered [] = Inr ordered"
| "dedup_loop E seen ordered (doc # docs) =
     (case doc_key E doc of
        Inl e \<Rightarrow> Inl e
      | Inr key \<Rightarrow>
          if seen key = None
          then dedup_loop E (seen(key \<mapsto> doc)) (ordered @ [doc]) docs
          else dedup_loop E seen ordered docs)"

definition deduplicate :: "env \<Rightarrow> document list \<Rightarrow> error + document list" where
  "deduplicate E docs = dedup_loop E Map.empty [] docs"

section \<open>The retriever\<close>

text \<open>A function that reads or changes the world returns its result, or the exception
  it raises, together with the world it leaves.\<close>

definition log_call :: "call \<Rightarrow> world \<Rightarrow> world" where
  "log_call c w = w\<lparr>calls := calls w @ [c]\<rparr>"

subsection \<open>Text of a response\<close>

text \<open>\<^verbatim>\<open>sep.join(items)\<close> on values: every item has to be a string.\<close>

fun join_items :: "string \<Rightarrow> pyval list \<Rightarrow> string list \<Rightarrow> error + string" where
  "join_items sep [] acc = Inr (py_join sep acc)"
| "join_items sep (PStr s # vs) acc = join_items sep vs (acc @ [s])"
| "join_items sep (v # vs) acc = Inl TypeError"

text \<open>The comprehension
  \<^verbatim>\<open>[segment.get("text", "") for segment in content if isinstance(segment, dict)]\<close>.\<close>

fun text_segments :: "segment list \<Rightarrow> pyval list" where
  "text_segments [] = []"
| "text_segments (SegDict d # segs) = dict_get d ''text'' (PStr []) # text_segments segs"
| "text_segments (SegStr s # segs) = text_segments segs"

text \<open>\<^verbatim>\<open>_to_plain_text\<close>\<close>

fun to_plain_text :: "content \<Rightarrow> error + string" where
  "to_plain_text (Text s) = Inr s"
| "to_plain_text (Segments segs) = join_items [CHR 0x0A] (text_segments segs) []"

subsection \<open>Query fusion and HyDE\<close>

text \<open>The prompts of \<^verbatim>\<open>PromptRepo\<close> and of \<^verbatim>\<open>__init__\<close>. The fusion prompt has no
  placeholder, so its messages do not depend on the query.\<close>

definition get_rag_fusion_prompt :: string where
  "get_rag_fusion_prompt =
     ''Ban se nhan mot cau hoi bang tieng Viet. Hay tao toi da 3 truy van '' @
     ''tim kiem khac nhau nhung giu nguyen nghia cua cau hoi ban dau. '' @
     ''Moi truy van viet tren mot dong, khong danh so thu tu.''"

definition fusion_messages :: "string \<Rightarrow> message list" where
  "fusion_messages query =
     [(System, ''Ban la tro ly tao cac truy van tim kiem tuong tu.''),
      (Human, get_rag_fusion_prompt)]"

definition hyde_messages :: "string \<Rightarrow> message list" where
  "hyde_messages query =
     [(System, ''Ban viet cac doan van mo phong cau tra loi.''),
      (Human,
        ''Viet mot doan van ngan gom 3-5 cau tra loi cau hoi sau day du tren '' @
        ''toan bo kien thuc ban co. Su dung giong dieu thong tin, khong gioi han'' @
        '' thong tin. Cau hoi: '' @ query)]"

text \<open>The loop of \<^verbatim>\<open>_generate_variant_queries\<close> over the lines of the response;
  \<open>n\<close> is \<^verbatim>\<open>self.fusion_variant_count\<close>.\<close>

fun variants_loop :: "int \<Rightarrow> string \<Rightarrow> string list \<Rightarrow> string list \<Rightarrow> string list" where
  "variants_loop n query variants [] = variants"
| "variants_loop n query variants (line # lines) =
     (let stripped = py_strip (py_strip_chars ''-* '' line) in
      if stripped = [] then variants_loop n query variants lines
      else if py_lower stripped = py_lower query then variants_loop n query variants lines
      else if n \<le> int (length (variants @ [stripped])) then variants @ [stripped]
      else variants_loop n query (variants @ [stripped]) lines)"

text \<open>\<^verbatim>\<open>_generate_variant_queries\<close>\<close>

definition generate_variant_queries ::
  "env \<Rightarrow> string \<Rightarrow> world \<Rightarrow> (error + string list) \<times> world" where
  "generate_variant_queries E query w =
     (if \<not> enable_query_fusion (the_retriever w)
      then (Inr [], w\<lparr>the_retriever := (the_retriever w)\<lparr>last_query_variants := []\<rparr>\<rparr>)
      else
        let messages = fusion_messages query;
            response = query_llm E (calls w) messages;
            w1 = log_call (QueryLLMCall messages) w
        in case response of
             Inl e \<Rightarrow> (Inl e, w1)
           | Inr c \<Rightarrow>
               (case to_plain_text c of
                  Inl e \<Rightarrow> (Inl e, w1)
                | Inr text \<Rightarrow>
                    let variants =
                          variants_loop (fusion_variant_count (the_retriever w1)) query []
                            (splitlines text)
                    in (Inr variants,
                        w1\<lparr>the_retriever := (the_retriever w1)\<lparr>last_query_variants := variants\<rparr>\<rparr>)))"

text \<open>\<^verbatim>\<open>_generate_hypothetical_document\<close>\<close>

definition generate_hypothetical_document ::
  "env \<Rightarrow> string \<Rightarrow> world \<Rightarrow> (error + string) \<times> world" where
  "generate_hypothetical_document E query w =
     (if \<not> enable_hyde (the_retriever w)
      then (Inr [], w\<lparr>the_retriever := (the_retriever w)\<lparr>last_hypothetical_document := None\<rparr>\<rparr>)
      else
        let messages = hyde_messages query;
            response = query_llm E (calls w) messages;
            w1 = log_call (QueryLLMCall messages) w
        in case response of
             Inl e \<Rightarrow> (Inl e, w1)
           | Inr c \<Rightarrow>
               (case to_plain_text c of
                  Inl e \<Rightarrow> (Inl e, w1)
                | Inr text \<Rightarrow>
                    let hypo = py_strip text
                    in (Inr hypo,
                        w1\<lparr>the_retriever :=
                             (the_retriever w1)\<lparr>last_hypothetical_document := Some hypo\<rparr>\<rparr>)))"

subsection \<open>Candidates\<close>

text \<open>One \<^verbatim>\<open>self.vector_store.similarity_search(q, k=self.primary_k)\<close>.\<close>

definition search :: "env \<Rightarrow> string \<Rightarrow> world \<Rightarrow> (error + document list) \<times> world" where
  "search E q w =
     (let k = primary_k (the_retriever w)
      in (similarity_search E (calls w) q k, log_call (SearchCall q k) w))"

text \<open>The loop of \<^verbatim>\<open>_retrieve_candidates\<close> over the variants.\<close>

fun search_variants ::
  "env \<Rightarrow> document list \<Rightarrow> string list \<Rightarrow> world \<Rightarrow> (error + document list) \<times> world" where
  "search_variants E candidates [] w = (Inr candidates, w)"
| "search_variants E candidates (variant # variants) w =
     (case search E variant w of
        (Inl e, w1) \<Rightarrow> (Inl e, w1)
      | (Inr variant_docs, w1) \<Rightarrow> search_variants E (candidates @ variant_docs) variants w1)"

text \<open>\<^verbatim>\<open>_retrieve_candidates\<close>\<close>

definition retrieve_candidates ::
  "env \<Rightarrow> string \<Rightarrow> world \<Rightarrow> (error + document list) \<times> world" where
  "retrieve_candidates E query w =
     (case search E query w of
        (Inl e, w1) \<Rightarrow> (Inl e, w1)
      | (Inr candidates, w1) \<Rightarrow>
     (case generate_variant_queries E query w1 of
        (Inl e, w2) \<Rightarrow> (Inl e, w2)
      | (Inr variants, w2) \<Rightarrow>
     (case search_variants E candidates variants w2 of
        (Inl e, w3) \<Rightarrow> (Inl e, w3)
      | (Inr candidates3, w3) \<Rightarrow>
     (case generate_hypothetical_document E query w3 of
        (Inl e, w4) \<Rightarrow> (Inl e, w4)
      | (Inr hypothetical, w4) \<Rightarrow>
          if hypothetical \<noteq> []
          then (case search E hypothetical w4 of
                  (Inl e, w5) \<Rightarrow> (Inl e, w5)
                | (Inr hyde_docs, w5) \<Rightarrow> (deduplicate E (candidates3 @ hyde_docs), w5))
          else (deduplicate E candidates3, w4)))))"

subsection \<open>Reranking\<close>

text \<open>The test \<^verbatim>\<open>idx is None or idx >= len(documents)\<close> of \<^verbatim>\<open>invoke_rerank\<close>; a string
  cannot be compared with an integer.\<close>

fun index_skipped :: "env \<Rightarrow> pyval \<Rightarrow> int \<Rightarrow> error + bool" where
  "index_skipped E PNone n = Inr True"
| "index_skipped E (PBool b) n = Inr (n \<le> (if b then 1 else 0))"
| "index_skipped E (PInt i) n = Inr (n \<le> i)"
| "index_skipped E (PFloat f) n = Inr (float_ge E f n)"
| "index_skipped E (PStr s) n = Inl TypeError"

text \<open>\<^verbatim>\<open>documents[idx]\<close>: an integer (or a boolean, which is one) indexes the list, with
  Python's negative indices; anything else raises \<^verbatim>\<open>TypeError\<close>.\<close>

fun index_document :: "document list \<Rightarrow> pyval \<Rightarrow> error + document" where
  "index_document documents (PInt i) = py_index documents i"
| "index_document documents (PBool b) = py_index documents (if b then 1 else 0)"
| "index_document documents v = Inl TypeError"

text \<open>The loop of \<^verbatim>\<open>invoke_rerank\<close> over the results.\<close>

fun rank_loop ::
  "env \<Rightarrow> document list \<Rightarrow> document list \<Rightarrow> rerank_result list \<Rightarrow> error + document list" where
  "rank_loop E documents ranked_docs [] = Inr ranked_docs"
| "rank_loop E documents ranked_docs (ResultOther # results) = Inl AttributeError"
| "rank_loop E documents ranked_docs (ResultObj result # results) =
     (let idx = dict_get result ''index'' PNone in
      case index_skipped E idx (int (length documents)) of
        Inl e \<Rightarrow> Inl e
      | Inr True \<Rightarrow> rank_loop E documents ranked_docs results
      | Inr False \<Rightarrow>
          (case index_document documents idx of
             Inl e \<Rightarrow> Inl e
           | Inr doc \<Rightarrow>
               rank_loop E documents
                 (ranked_docs @
                   [\<lparr> page_content = page_content doc,
                      metadata = (metadata doc)
                        (''rerank_score'' \<mapsto> dict_get result ''relevanceScore'' PNone) \<rparr>])
                 results))"

text \<open>\<^verbatim>\<open>bedrock.invoke_rerank\<close>\<close>

definition invoke_rerank ::
  "env \<Rightarrow> string \<Rightarrow> string \<Rightarrow> document list \<Rightarrow> int \<Rightarrow> world
     \<Rightarrow> (error + document list) \<times> world" where
  "invoke_rerank E model_id query documents top_n w =
     (if documents = [] then (Inr [], w)
      else
        let texts = map page_content documents;
            topN = min top_n (int (length documents));
            response = rerank_model E (calls w) model_id query texts topN;
            w1 = log_call (RerankCall model_id query texts topN) w
        in case response of
             Inl e \<Rightarrow> (Inl e, w1)
           | Inr results \<Rightarrow> (rank_loop E documents [] results, w1))"

text \<open>\<^verbatim>\<open>not self.rerank_model_id\<close>: no identifier, or the empty one.\<close>

definition no_rerank_model :: "retriever \<Rightarrow> bool" where
  "no_rerank_model r = (case rerank_model_id r of None \<Rightarrow> True | Some m \<Rightarrow> m = [])"

text \<open>\<^verbatim>\<open>_apply_rerank\<close>: every exception of \<^verbatim>\<open>invoke_rerank\<close> is caught.\<close>

definition apply_rerank ::
  "env \<Rightarrow> string \<Rightarrow> document list \<Rightarrow> world \<Rightarrow> document list \<times> world" where
  "apply_rerank E query docs w =
     (let r = the_retriever w in
      if no_rerank_model r then (py_slice_to (final_k r) docs, w)
      else
        case invoke_rerank E (the (rerank_model_id r)) query docs (final_k r) w of
          (Inl exc, w1) \<Rightarrow> (py_slice_to (final_k r) docs, w1)
        | (Inr reranked, w1) \<Rightarrow>
            (if reranked = [] then py_slice_to (final_k r) docs else reranked, w1))"

text \<open>\<^verbatim>\<open>_get_relevant_documents\<close>\<close>

definition get_relevant_documents ::
  "env \<Rightarrow> string \<Rightarrow> world \<Rightarrow> (error + document list) \<times> world" where
  "get_relevant_documents E query w =
     (case retrieve_candidates E query w of
        (Inl e, w1) \<Rightarrow> (Inl e, w1)
      | (Inr candidates, w1) \<Rightarrow>
          (case apply_rerank E query candidates w1 of
             (docs, w2) \<Rightarrow> (Inr docs, w2)))"

section \<open>The pipeline\<close>

text \<open>A conversation turn is a dictionary of strings; the history is optional.\<close>

type_synonym turn = "string \<rightharpoonup> string"

text \<open>\<^verbatim>\<open>_format_history\<close>\<close>

definition format_turn :: "env \<Rightarrow> turn \<Rightarrow> string" where
  "format_turn E t =
     capitalize E (dict_get t ''role'' ''user'') @ '': '' @ py_strip (dict_get t ''content'' [])"

definition format_history :: "env \<Rightarrow> turn list option \<Rightarrow> string" where
  "format_history E history =
     (case history of
        None \<Rightarrow> []
      | Some turns \<Rightarrow>
          if turns = [] then [] else py_join [CHR 0x0A] (map (format_turn E) turns))"

text \<open>Splitting a text at the first occurrence of a pattern.\<close>

fun split_at_first :: "string \<Rightarrow> string \<Rightarrow> (string \<times> string) option" where
  "split_at_first pat [] = (if pat = [] then Some ([], []) else None)"
| "split_at_first pat (c # cs) =
     (if take (length pat) (c # cs) = pat then Some ([], drop (length pat) (c # cs))
      else case split_at_first pat cs of
             None \<Rightarrow> None
           | Some (before, after) \<Rightarrow> Some (c # before, after))"

text \<open>\<^verbatim>\<open>_cleanup_result_tag\<close>: the search for \<^verbatim>\<open><result>(.*?)</result>\<close> matches at the
  first opening tag that a closing tag follows, up to the first such closing tag.\<close>

definition cleanup_result_tag :: "string \<Rightarrow> string" where
  "cleanup_result_tag text =
     (case split_at_first ''<result>'' text of
        None \<Rightarrow> py_strip text
      | Some (before, rest) \<Rightarrow>
          (case split_at_first ''</result>'' rest of
             None \<Rightarrow> py_strip text
           | Some (inner, after) \<Rightarrow> py_strip inner))"

text \<open>\<^verbatim>\<open>bedrock.invoke_text_generation\<close>\<close>

definition invoke_text_generation ::
  "env \<Rightarrow> string \<Rightarrow> string \<Rightarrow> string \<Rightarrow> world \<Rightarrow> (error + string) \<times> world" where
  "invoke_text_generation E model_id system_prompt user_prompt w =
     (let response = text_model E (calls w) model_id system_prompt user_prompt;
          w1 = log_call (TextGenCall model_id system_prompt user_prompt) w
      in case response of
           Inl e \<Rightarrow> (Inl e, w1)
         | Inr outputs \<Rightarrow>
             (case join_items [CHR 0x0A]
                     (map (\<lambda>item. dict_get item ''text'' (PStr [])) outputs) [] of
                Inl e \<Rightarrow> (Inl e, w1)
              | Inr joined \<Rightarrow> (Inr (py_strip joined), w1)))"

definition get_contextualize_system_prompt :: string where
  "get_contextualize_system_prompt =
     ''Referring to the conversation history, create a standalone version of the '' @
     ''<question>. The rewritten question must keep all critical terms. '' @
     ''Wrap the result in <result> tags. If the conversation is irrelevant, '' @
     ''return the original question inside <result> tags without modifications.''"

text \<open>The user prompt that \<^verbatim>\<open>_rewrite_question\<close> formats.\<close>

definition rewrite_user_prompt :: "string \<Rightarrow> string \<Rightarrow> string" where
  "rewrite_user_prompt history_text question_text =
     ''Conversation so far:'' @ [CHR 0x0A] @ history_text @ [CHR 0x0A, CHR 0x0A] @
     ''Create a standalone question for: <question>'' @ question_text @ ''</question>''"

text \<open>\<^verbatim>\<open>RAGPipeline._rewrite_question\<close>: the exceptions of the generation call are
  caught.\<close>

definition rewrite_question ::
  "env \<Rightarrow> string \<Rightarrow> turn list option \<Rightarrow> world \<Rightarrow> string \<times> world" where
  "rewrite_question E question history w =
     (case history of
        None \<Rightarrow> (question, w)
      | Some turns \<Rightarrow>
          if turns = [] then (question, w)
          else
            let history_text = format_history E history in
            if history_text = [] then (question, w)
            else
              let system_prompt = get_contextualize_system_prompt;
                  user_prompt = rewrite_user_prompt history_text question
              in case invoke_text_generation E (bedrock_chat_model_id (pipeline_settings w))
                        system_prompt user_prompt w of
                   (Inl exc, w1) \<Rightarrow> (question, w1)
                 | (Inr response, w1) \<Rightarrow>
                     (let rewritten = cleanup_result_tag response
                      in (if rewritten \<noteq> [] then rewritten else question, w1)))"

text \<open>\<^verbatim>\<open>_format_contexts\<close>: one block per document, numbered from 1. The rendering of
  the score raises when the score is not a number.\<close>

definition format_block :: "env \<Rightarrow> nat \<Rightarrow> document \<Rightarrow> error + string" where
  "format_block E idx doc =
     (let source = dict_get (metadata doc) ''source'' (PStr ''unknown'');
          score = dict_get (metadata doc) ''rerank_score'' PNone;
          prefix = ''['' @ nat_str idx @ ''] '' @ py_str E source
      in case score of
           PNone \<Rightarrow> Inr (prefix @ [CHR 0x0A] @ py_strip (page_content doc))
         | _ \<Rightarrow>
             (case format_3f E score of
                Inl e \<Rightarrow> Inl e
              | Inr shown \<Rightarrow>
                  Inr (prefix @ '' (score='' @ shown @ '')'' @ [CHR 0x0A] @
                       py_strip (page_content doc))))"

fun format_blocks :: "env \<Rightarrow> nat \<Rightarrow> string list \<Rightarrow> document list \<Rightarrow> error + string" where
  "format_blocks E idx blocks [] = Inr (py_join [CHR 0x0A, CHR 0x0A] blocks)"
| "format_blocks E idx blocks (doc # docs) =
     (case format_block E idx doc of
        Inl e \<Rightarrow> Inl e
      | Inr block \<Rightarrow> format_blocks E (Suc idx) (blocks @ [block]) docs)"

definition format_contexts :: "env \<Rightarrow> document list \<Rightarrow> error + string" where
  "format_contexts E docs = format_blocks E 1 [] docs"

text \<open>\<^verbatim>\<open>RAGPipeline._build_context\<close>\<close>

definition build_context :: "env \<Rightarrow> document list \<Rightarrow> error + string" where
  "build_context E docs = (if docs = [] then Inr [] else format_contexts E docs)"

definition get_system_prompt :: string where
  "get_system_prompt =
     ''You are a senior assistant that answers user questions in Vietnamese. '' @
     ''You will receive background context made of text chunks produced during '' @
     ''a retrieval step. Read the context carefully and provide the most '' @
     ''accurate answer possible. If the context is insufficient, reply with '' @
     [CHR 0x27] @ ''Khong co thong tin phu hop trong ngu canh.'' @ [CHR 0x27]"

definition answer_messages :: "string \<Rightarrow> string \<Rightarrow> message list" where
  "answer_messages contexts_text question_text =
     [(System, get_system_prompt),
      (Human,
        ''Ben duoi la tap cac ngu canh: <contexts>'' @ contexts_text @ ''</contexts>'' @
        [CHR 0x0A, CHR 0x0A] @
        ''Tra loi cau hoi sau bang tieng Viet, khong them loi mo dau.'' @
        '' Neu khong tim thay thong tin phu hop trong ngu canh hay tra loi'' @
        '' dung nhu sau: '' @ [CHR 0x27] @ ''Khong co thong tin phu hop trong ngu canh.'' @
        [CHR 0x27] @ [CHR 0x0A, CHR 0x0A] @
        ''<question>'' @ question_text @ ''</question>'')]"

text \<open>The text of the answer: the content itself, or the texts of its dictionary
  segments joined by the empty string.\<close>

fun answer_text_of :: "content \<Rightarrow> error + string" where
  "answer_text_of (Text s) = Inr s"
| "answer_text_of (Segments segs) = join_items [] (text_segments segs) []"

text \<open>An element of \<^verbatim>\<open>context_payload\<close> and the dictionary that \<^verbatim>\<open>run\<close> returns.\<close>

record context_chunk =
  content :: string
  chunk_metadata :: "string \<rightharpoonup> pyval"

definition context_of :: "document \<Rightarrow> context_chunk" where
  "context_of doc = \<lparr> content = page_content doc, chunk_metadata = metadata doc \<rparr>"

record pipeline_result =
  question :: string
  rewritten_question :: string
  answer :: string
  contexts :: "context_chunk list"
  query_variants :: "string list"
  hyde_document :: "string option"

text \<open>\<^verbatim>\<open>RAGPipeline.run\<close>. It calls the retriever through \<^verbatim>\<open>get_relevant_documents\<close>,
  the public method of LangChain's base class, which hands the query to
  \<^verbatim>\<open>_get_relevant_documents\<close>.\<close>

definition run ::
  "env \<Rightarrow> string \<Rightarrow> turn list option \<Rightarrow> world \<Rightarrow> (error + pipeline_result) \<times> world" where
  "run E q history w =
     (case rewrite_question E q history w of
        (rewritten, w1) \<Rightarrow>
     (case get_relevant_documents E rewritten w1 of
        (Inl e, w2) \<Rightarrow> (Inl e, w2)
      | (Inr retrieved_docs, w2) \<Rightarrow>
     (case build_context E retrieved_docs of
        Inl e \<Rightarrow> (Inl e, w2)
      | Inr context_text \<Rightarrow>
          let messages = answer_messages context_text rewritten;
              response = answer_llm E (calls w2) messages;
              w3 = log_call (AnswerLLMCall messages) w2
          in case response of
               Inl e \<Rightarrow> (Inl e, w3)
             | Inr c \<Rightarrow>
                 (case answer_text_of c of
                    Inl e \<Rightarrow> (Inl e, w3)
                  | Inr answer_text \<Rightarrow>
                      (Inr \<lparr> question = q,
                             rewritten_question = rewritten,
                             answer = py_strip answer_text,
                             contexts = map context_of retrieved_docs,
                             query_variants = last_query_variants (the_retriever w3),
                             hyde_document = last_hypothetical_document (the_retriever w3) \<rparr>,
                       w3)))))"

section \<open>Specification-side definitions and example data\<close>

text \<open>The key of a document whose key computation does not raise.\<close>

definition key_of :: "env \<Rightarrow> document \<Rightarrow> string" where
  "key_of E doc = (case doc_key E doc of Inl e \<Rightarrow> [] | Inr k \<Rightarrow> k)"

text \<open>First-occurrence filtering, as the specification words it: go through the
  candidates in order, keep a set of the keys seen, keep a candidate only when its key
  has not been seen.\<close>

fun first_per_key :: "('a \<Rightarrow> 'k) \<Rightarrow> 'k set \<Rightarrow> 'a list \<Rightarrow> 'a list" where
  "first_per_key kf seen [] = []"
| "first_per_key kf seen (x # xs) =
     (if kf x \<in> seen then first_per_key kf seen xs
      else x # first_per_key kf (insert (kf x) seen) xs)"

text \<open>The key as the specification words it: the source followed by the chunk number
  when the metadata has both, the first 100 characters of the content otherwise.\<close>

definition spec_dedup_key :: "env \<Rightarrow> document \<Rightarrow> string" where
  "spec_dedup_key E doc =
     (case (metadata doc ''source'', metadata doc ''chunk_id'') of
        (Some (PStr src), Some c) \<Rightarrow> src @ py_str E c
      | _ \<Rightarrow> take 100 (page_content doc))"

text \<open>The normalisation of a response line in \<^verbatim>\<open>_generate_variant_queries\<close>, and the
  lines that can become variants of a query.\<close>

definition clean_line :: "string \<Rightarrow> string" where
  "clean_line l = py_strip (py_strip_chars ''-* '' l)"

definition variant_lines :: "string \<Rightarrow> string list \<Rightarrow> string list" where
  "variant_lines query ls =
     filter (\<lambda>s. s \<noteq> [] \<and> py_lower s \<noteq> py_lower query) (map clean_line ls)"

text \<open>The normalisation as the specification words it: the surrounding whitespace and
  the leading dashes and asterisks go, nothing else.\<close>

definition spec_clean_line :: "string \<Rightarrow> string" where
  "spec_clean_line l =
     py_strip (dropWhile (\<lambda>c. c = CHR ''-'' \<or> c = CHR ''*'') (py_strip l))"

definition spec_parse_variants :: "int \<Rightarrow> string \<Rightarrow> string \<Rightarrow> string list" where
  "spec_parse_variants n query response =
     take (nat n)
       (filter (\<lambda>s. s \<noteq> [] \<and> py_lower s \<noteq> py_lower query)
          (map spec_clean_line (splitlines response)))"




text \<open>The configuration of the pipeline and of its retriever, which a request only
  reads.\<close>

definition same_config :: "world \<Rightarrow> world \<Rightarrow> bool" where
  "same_config w w' =
     (pipeline_settings w' = pipeline_settings w \<and>
      settings (the_retriever w') = settings (the_retriever w) \<and>
      primary_k (the_retriever w') = primary_k (the_retriever w) \<and>
      final_k (the_retriever w') = final_k (the_retriever w) \<and>
      enable_query_fusion (the_retriever w') = enable_query_fusion (the_retriever w) \<and>
      enable_hyde (the_retriever w') = enable_hyde (the_retriever w) \<and>
      fusion_variant_count (the_retriever w') = fusion_variant_count (the_retriever w) \<and>
      rerank_model_id (the_retriever w') = rerank_model_id (the_retriever w))"

subsection \<open>Example data\<close>

definition doc_A :: document where
  "doc_A = \<lparr> page_content = ''alpha'',
             metadata = [''source'' \<mapsto> PStr ''s3://kb/a.txt'', ''chunk_id'' \<mapsto> PInt 0] \<rparr>"

definition doc_B :: document where
  "doc_B = \<lparr> page_content = ''beta'',
             metadata = [''source'' \<mapsto> PStr ''s3://kb/a.txt'', ''chunk_id'' \<mapsto> PInt 1] \<rparr>"

definition doc_C :: document where
  "doc_C = \<lparr> page_content = ''gamma'',
             metadata = [''source'' \<mapsto> PStr ''s3://kb/b.txt'', ''chunk_id'' \<mapsto> PInt 0] \<rparr>"

text \<open>Two chunks of one source whose metadata has no chunk number.\<close>

definition doc_P :: document where
  "doc_P = \<lparr> page_content = ''first part'', metadata = [''source'' \<mapsto> PStr ''s3://kb/p.txt''] \<rparr>"

definition doc_Q :: document where
  "doc_Q = \<lparr> page_content = ''second part'', metadata = [''source'' \<mapsto> PStr ''s3://kb/p.txt''] \<rparr>"

text \<open>A chunk with a chunk number and no source, a chunk with no metadata, and a chunk
  whose source is \<^verbatim>\<open>None\<close>.\<close>

definition doc_R :: document where
  "doc_R = \<lparr> page_content = ''delta'', metadata = [''chunk_id'' \<mapsto> PInt 4] \<rparr>"

definition doc_S :: document where
  "doc_S = \<lparr> page_content = ''epsilon'', metadata = Map.empty \<rparr>"

definition doc_N :: document where
  "doc_N = \<lparr> page_content = ''zeta'',
             metadata = [''source'' \<mapsto> PNone, ''chunk_id'' \<mapsto> PInt 0] \<rparr>"

text \<open>A chunk whose source and chunk number are both the empty string.\<close>

definition doc_E :: document where
  "doc_E = \<lparr> page_content = ''eta'',
             metadata = [''source'' \<mapsto> PStr [], ''chunk_id'' \<mapsto> PStr []] \<rparr>"

text \<open>The capitalisation of the example services: that of Python on a text of ASCII
  characters, the first letter in upper case and the other letters in lower case.\<close>

definition ascii_capitalize :: "string \<Rightarrow> string" where
  "ascii_capitalize s =
     (case s of
        [] \<Rightarrow> []
      | c # cs \<Rightarrow>
          (let n = (of_char c :: nat) in if 97 \<le> n \<and> n \<le> 122 then char_of (n - 32) else c)
          # map (\<lambda>d. let n = (of_char d :: nat) in
                       if 65 \<le> n \<and> n \<le> 90 then char_of (n + 32) else d) cs)"

text \<open>The number format of the example services: that of Python on the integers and
  booleans of the examples; a string has no such format, and formatting it raises
  \<^verbatim>\<open>ValueError\<close>.\<close>

definition example_format_3f :: "pyval \<Rightarrow> error + string" where
  "example_format_3f v =
     (case v of
        PInt i \<Rightarrow> Inr (int_str i @ ''.000'')
      | PBool b \<Rightarrow> Inr (if b then ''1.000'' else ''0.000'')
      | PStr s \<Rightarrow> Inl ValueError
      | PNone \<Rightarrow> Inl TypeError
      | PFloat f \<Rightarrow> Inr ''nan'')"

text \<open>Services that answer every call: the search gives the three documents, the models
  an empty text, the reranker no result.\<close>

definition quiet_env :: env where
  "quiet_env =
     \<lparr> similarity_search = (\<lambda>cs q k. Inr [doc_A, doc_B, doc_C]),
       query_llm = (\<lambda>cs ms. Inr (Text [])),
       answer_llm = (\<lambda>cs ms. Inr (Text ''ok'')),
       text_model = (\<lambda>cs m s u. Inr []),
       rerank_model = (\<lambda>cs m q ts n. Inr []),
       float_str = (\<lambda>f. []),
       float_ge = (\<lambda>f n. False),
       format_3f = example_format_3f,
       capitalize = ascii_capitalize \<rparr>"

definition base_settings :: Settings where
  "base_settings =
     \<lparr> bedrock_chat_model_id = ''chat'',
       bedrock_rerank_model_id = None,
       vector_search_k = 3,
       vector_search_k_rerank = 2,
       cfg_enable_query_fusion = False,
       cfg_fusion_variant_count = 2,
       cfg_enable_hyde = False \<rparr>"

definition world_of :: "Settings \<Rightarrow> world" where
  "world_of st = \<lparr> pipeline_settings = st, the_retriever = retriever_init st, calls = [] \<rparr>"

text \<open>A query model that answers the fusion prompt with three lines, and settings with
  query fusion on.\<close>

definition fusion_env :: env where
  "fusion_env = quiet_env\<lparr> query_llm := (\<lambda>cs ms. Inr (Text (''- v1'' @ [CHR 0x0A] @ ''v1'' @ [CHR 0x0A] @ ''v2''))) \<rparr>"

definition fusion_settings :: Settings where
  "fusion_settings = base_settings\<lparr> cfg_enable_query_fusion := True \<rparr>"

text \<open>Settings with a rerank size and a variant count of 0.\<close>

definition zero_settings :: Settings where
  "zero_settings = base_settings\<lparr> vector_search_k_rerank := 0, cfg_fusion_variant_count := 0 \<rparr>"

text \<open>The calls to the text generation service, which only the question rewriter
  uses.\<close>

definition is_text_gen :: "call \<Rightarrow> bool" where
  "is_text_gen c = (case c of TextGenCall m s u \<Rightarrow> True | _ \<Rightarrow> False)"

definition text_gen_calls :: "world \<Rightarrow> call list" where
  "text_gen_calls w = filter is_text_gen (calls w)"

text \<open>Settings with a rerank model, and rerank services: one that raises, one whose
  results hold a value that is not an object, one whose results have no usable index,
  one with an unusable result before a usable one, one whose result has a text as
  score, one that returns every document whatever number is asked for, and one that
  returns at most the number asked for.\<close>

definition rerank_settings :: Settings where
  "rerank_settings = base_settings\<lparr> bedrock_rerank_model_id := Some ''rerank'' \<rparr>"






definition all_results :: "rerank_result list" where
  "all_results =
     [ResultObj [''index'' \<mapsto> PInt 2, ''relevanceScore'' \<mapsto> PInt 1],
      ResultObj [''index'' \<mapsto> PInt 0, ''relevanceScore'' \<mapsto> PInt 1],
      ResultObj [''index'' \<mapsto> PInt 1, ''relevanceScore'' \<mapsto> PInt 0]]"

definition greedy_rerank_env :: env where
  "greedy_rerank_env =
     quiet_env\<lparr> rerank_model := (\<lambda>cs m q ts n. Inr all_results) \<rparr>"


text \<open>A query model that raises on every call, and settings with HyDE on.\<close>

definition no_fusion_env :: env where
  "no_fusion_env =
     quiet_env\<lparr> query_llm := (\<lambda>cs ms. Inl (BackendError ''generation unavailable'')) \<rparr>"

definition hyde_settings :: Settings where
  "hyde_settings = base_settings\<lparr> cfg_enable_hyde := True \<rparr>"


text \<open>A query model that raises on its first call only, one that answers the fusion
  prompt and raises on every other prompt, and settings with query fusion and HyDE
  on.\<close>

definition is_query_call :: "call \<Rightarrow> bool" where
  "is_query_call c = (case c of QueryLLMCall ms \<Rightarrow> True | _ \<Rightarrow> False)"

definition flaky_env :: env where
  "flaky_env =
     quiet_env\<lparr> query_llm := (\<lambda>cs ms. if list_ex is_query_call cs then Inr (Text ''v1'')
                                    else Inl (BackendError ''throttled'')) \<rparr>"

definition hyde_down_env :: env where
  "hyde_down_env =
     quiet_env\<lparr> query_llm := (\<lambda>cs ms. if ms = fusion_messages [] then Inr (Text ''v1'')
                                    else Inl (BackendError ''generation unavailable'')) \<rparr>"

definition fusion_hyde_settings :: Settings where
  "fusion_hyde_settings = fusion_settings\<lparr> cfg_enable_hyde := True \<rparr>"

section \<open>Lemmas\<close>

subsection \<open>First-occurrence filtering\<close>

lemma fpk_subseq: "subseq (first_per_key kf S xs) xs"
  by (induction xs arbitrary: S) auto


lemma fpk_set: "kf ` set (first_per_key kf S xs) = kf ` set xs - S"
  by (induction xs arbitrary: S) auto

lemma fpk_distinct: "distinct (map kf (first_per_key kf S xs))"
proof (induction xs arbitrary: S)
  case Nil
  then show ?case by simp
next
  case (Cons x xs)
  have "kf x \<notin> kf ` set (first_per_key kf (insert (kf x) S) xs)"
    by (simp add: fpk_set)
  with Cons show ?case by auto
qed




lemma fpk_first: "d \<in> set (first_per_key kf S xs) \<Longrightarrow> find (\<lambda>x. kf x = kf d) xs = Some d"
proof (induction xs arbitrary: S)
  case Nil
  then show ?case by simp
next
  case (Cons x xs)
  show ?case
  proof (cases "kf x \<in> S")
    case True
    with Cons.prems have m: "d \<in> set (first_per_key kf S xs)" by simp
    then have "kf d \<in> kf ` set (first_per_key kf S xs)" by blast
    then have "kf d \<notin> S" by (simp add: fpk_set)
    with True have "kf x \<noteq> kf d" by auto
    with Cons.IH[OF m] show ?thesis by simp
  next
    case False
    with Cons.prems have "d = x \<or> d \<in> set (first_per_key kf (insert (kf x) S) xs)" by simp
    then show ?thesis
    proof
      assume "d = x" then show ?thesis by simp
    next
      assume m: "d \<in> set (first_per_key kf (insert (kf x) S) xs)"
      then have "kf d \<in> kf ` set (first_per_key kf (insert (kf x) S) xs)" by blast
      then have "kf x \<noteq> kf d" by (auto simp: fpk_set)
      with Cons.IH[OF m] show ?thesis by simp
    qed
  qed
qed

lemma dedup_loop_ok:
  "\<forall>d \<in> set docs. \<exists>k. doc_key E d = Inr k \<Longrightarrow>
   dedup_loop E seen ordered docs = Inr (ordered @ first_per_key (key_of E) (dom seen) docs)"
proof (induction docs arbitrary: seen ordered)
  case Nil
  then show ?case by simp
next
  case (Cons d docs)
  from Cons.prems obtain k where k: "doc_key E d = Inr k" by auto
  then have kk: "key_of E d = k" by (simp add: key_of_def)
  from Cons.prems have rest: "\<forall>d \<in> set docs. \<exists>k. doc_key E d = Inr k" by simp
  show ?case
  proof (cases "seen k")
    case None
    have "dedup_loop E (seen(k \<mapsto> d)) (ordered @ [d]) docs =
          Inr ((ordered @ [d]) @ first_per_key (key_of E) (dom (seen(k \<mapsto> d))) docs)"
      by (rule Cons.IH[OF rest])
    moreover have "k \<notin> dom seen" using None by (simp add: domIff)
    ultimately show ?thesis using None k kk by simp
  next
    case (Some a)
    have "dedup_loop E seen ordered docs =
          Inr (ordered @ first_per_key (key_of E) (dom seen) docs)"
      by (rule Cons.IH[OF rest])
    moreover have "k \<in> dom seen" using Some by (simp add: domIff)
    ultimately show ?thesis using Some k kk by simp
  qed
qed

lemma dedup_loop_keys:
  "dedup_loop E seen ordered docs = Inr Y \<Longrightarrow> \<forall>d \<in> set docs. \<exists>k. doc_key E d = Inr k"
proof (induction docs arbitrary: seen ordered)
  case Nil
  then show ?case by simp
next
  case (Cons d docs)
  then show ?case by (auto split: sum.splits if_splits)
qed

lemma deduplicate_ok:
  "\<forall>d \<in> set docs. \<exists>k. doc_key E d = Inr k \<Longrightarrow>
   deduplicate E docs = Inr (first_per_key (key_of E) {} docs)"
  using dedup_loop_ok[of docs E Map.empty "[]"] by (simp add: deduplicate_def)

lemma deduplicate_Inr:
  assumes "deduplicate E docs = Inr Y"
  shows "Y = first_per_key (key_of E) {} docs" and "\<forall>d \<in> set docs. \<exists>k. doc_key E d = Inr k"
proof -
  show k: "\<forall>d \<in> set docs. \<exists>k. doc_key E d = Inr k"
    using assms dedup_loop_keys unfolding deduplicate_def by blast
  from deduplicate_ok[OF k] assms show "Y = first_per_key (key_of E) {} docs" by simp
qed



subsection \<open>The variant loop as a filter\<close>

lemma variants_loop_take:
  "int (length vs) < n \<Longrightarrow>
   variants_loop n q vs ls = vs @ take (nat n - length vs) (variant_lines q ls)"
proof (induction ls arbitrary: vs)
  case Nil
  then show ?case by (simp add: variant_lines_def)
next
  case (Cons l ls)
  let ?s = "py_strip (py_strip_chars ''-* '' l)"
  show ?case
  proof (cases "?s \<noteq> [] \<and> py_lower ?s \<noteq> py_lower q")
    case False
    then have "variant_lines q (l # ls) = variant_lines q ls"
      by (auto simp: variant_lines_def clean_line_def)
    moreover from False have "variants_loop n q vs (l # ls) = variants_loop n q vs ls"
      by (auto simp: Let_def)
    ultimately show ?thesis using Cons.IH[OF Cons.prems] by simp
  next
    case True
    then have vl: "variant_lines q (l # ls) = ?s # variant_lines q ls"
      by (auto simp: variant_lines_def clean_line_def)
    show ?thesis
    proof (cases "n \<le> int (length (vs @ [?s]))")
      case full: True
      with Cons.prems have "nat n - length vs = 1" by simp
      moreover from True full have "variants_loop n q vs (l # ls) = vs @ [?s]"
        by (simp add: Let_def)
      ultimately show ?thesis using vl by simp
    next
      case more: False
      then have lt: "int (length (vs @ [?s])) < n" by simp
      from True more have "variants_loop n q vs (l # ls) = variants_loop n q (vs @ [?s]) ls"
        by (simp add: Let_def)
      also have "\<dots> = (vs @ [?s]) @ take (nat n - length (vs @ [?s])) (variant_lines q ls)"
        by (rule Cons.IH[OF lt])
      also have "\<dots> = vs @ take (nat n - length vs) (?s # variant_lines q ls)"
      proof -
        from lt have "Suc (length vs) < nat n" by simp
        then have "nat n - length vs = Suc (nat n - length (vs @ [?s]))" by simp
        then show ?thesis by simp
      qed
      finally show ?thesis using vl by simp
    qed
  qed
qed

subsection \<open>Keys of the example documents\<close>

lemmas eval_key = doc_key_def dict_get_def int_str_def nat_str.simps digit_char_def py_slice_to_def

lemma key_A: "doc_key quiet_env doc_A = Inr ''s3://kb/a.txt0''"
  by (simp add: eval_key doc_A_def)
lemma key_P: "doc_key quiet_env doc_P = Inr ''s3://kb/p.txt''"
  by (simp add: eval_key doc_P_def)
lemma key_Q: "doc_key quiet_env doc_Q = Inr ''s3://kb/p.txt''"
  by (simp add: eval_key doc_Q_def)


section \<open>Claims about deduplication\<close>



lemma doc_key_cases:
  "doc_key E doc =
     (case metadata doc ''source'' of
        None \<Rightarrow> Inr (let k = py_str E (dict_get (metadata doc) ''chunk_id'' (PStr [])) in
                      if k \<noteq> [] then k else py_slice_to 100 (page_content doc))
      | Some (PStr src) \<Rightarrow>
          Inr (let k = src @ py_str E (dict_get (metadata doc) ''chunk_id'' (PStr [])) in
               if k \<noteq> [] then k else py_slice_to 100 (page_content doc))
      | Some v \<Rightarrow> Inl TypeError)"
  by (simp add: doc_key_def dict_get_def Let_def split: option.splits pyval.splits)

text \<open>
  Claim C2, as amended. The key is the metadata's \<^verbatim>\<open>source\<close> (the empty string when
  absent) followed by \<^verbatim>\<open>str\<close> of its \<^verbatim>\<open>chunk_id\<close> (the empty string when absent), and
  it is the first 100 characters of the content exactly when this concatenation is
  empty (the first conjunct, for every source that is absent or a string). So a
  document with a source and no chunk number has its source as key, and a document with
  neither has its content prefix; a source that is not a string raises \<^verbatim>\<open>TypeError\<close>. Deduplication keeps, in
  pool order, exactly the first candidate of each key: its result is a subsequence of
  the pool, has distinct keys, has the keys of the pool, and each of its documents is
  the first of the pool with that key. It returns whenever every key can be computed.
\<close>

theorem dedup_key_first_occurrence:
  "(\<forall>src. (metadata doc ''source'' = None \<and> src = []
            \<or> metadata doc ''source'' = Some (PStr src))
      \<longrightarrow> doc_key E doc =
            Inr (if src @ (case metadata doc ''chunk_id'' of None \<Rightarrow> [] | Some c \<Rightarrow> py_str E c) = []
                 then take 100 (page_content doc)
                 else src @ (case metadata doc ''chunk_id'' of None \<Rightarrow> [] | Some c \<Rightarrow> py_str E c)))
   \<and> (\<forall>src c. metadata doc ''source'' = Some (PStr src) \<and> metadata doc ''chunk_id'' = Some c
        \<and> src @ py_str E c \<noteq> []
      \<longrightarrow> doc_key E doc = Inr (src @ py_str E c))
   \<and> (\<forall>src. metadata doc ''source'' = Some (PStr src) \<and> metadata doc ''chunk_id'' = None
        \<and> src \<noteq> []
      \<longrightarrow> doc_key E doc = Inr src)
   \<and> (\<forall>c. metadata doc ''source'' = None \<and> metadata doc ''chunk_id'' = Some c
        \<and> py_str E c \<noteq> []
      \<longrightarrow> doc_key E doc = Inr (py_str E c))
   \<and> (metadata doc ''source'' = None \<and> metadata doc ''chunk_id'' = None
      \<longrightarrow> doc_key E doc = Inr (take 100 (page_content doc)))
   \<and> (\<forall>v. metadata doc ''source'' = Some v \<and> (\<forall>s. v \<noteq> PStr s)
      \<longrightarrow> doc_key E doc = Inl TypeError)
   \<and> (\<forall>Y. deduplicate E X = Inr Y
      \<longrightarrow> Y = first_per_key (key_of E) {} X
        \<and> subseq Y X
        \<and> distinct (map (key_of E) Y)
        \<and> key_of E ` set Y = key_of E ` set X
        \<and> (\<forall>d \<in> set Y. find (\<lambda>x. key_of E x = key_of E d) X = Some d))
   \<and> ((\<forall>d \<in> set X. \<exists>k. doc_key E d = Inr k) \<longrightarrow> (\<exists>Y. deduplicate E X = Inr Y))"
proof (intro conjI allI impI ballI)
  fix src
  assume "metadata doc ''source'' = None \<and> src = []
            \<or> metadata doc ''source'' = Some (PStr src)"
  then show "doc_key E doc =
            Inr (if src @ (case metadata doc ''chunk_id'' of None \<Rightarrow> [] | Some c \<Rightarrow> py_str E c) = []
                 then take 100 (page_content doc)
                 else src @ (case metadata doc ''chunk_id'' of None \<Rightarrow> [] | Some c \<Rightarrow> py_str E c))"
    by (auto simp: doc_key_cases dict_get_def py_slice_to_def split: option.splits)
next
  fix src c
  assume "metadata doc ''source'' = Some (PStr src) \<and> metadata doc ''chunk_id'' = Some c
        \<and> src @ py_str E c \<noteq> []"
  then show "doc_key E doc = Inr (src @ py_str E c)"
    by (simp add: doc_key_cases dict_get_def)
next
  fix src
  assume "metadata doc ''source'' = Some (PStr src) \<and> metadata doc ''chunk_id'' = None \<and> src \<noteq> []"
  then show "doc_key E doc = Inr src"
    by (simp add: doc_key_cases dict_get_def)
next
  fix c
  assume "metadata doc ''source'' = None \<and> metadata doc ''chunk_id'' = Some c \<and> py_str E c \<noteq> []"
  then show "doc_key E doc = Inr (py_str E c)"
    by (simp add: doc_key_cases dict_get_def)
next
  assume "metadata doc ''source'' = None \<and> metadata doc ''chunk_id'' = None"
  then show "doc_key E doc = Inr (take 100 (page_content doc))"
    by (simp add: doc_key_cases dict_get_def py_slice_to_def)
next
  fix v
  assume "metadata doc ''source'' = Some v \<and> (\<forall>s. v \<noteq> PStr s)"
  then show "doc_key E doc = Inl TypeError"
    by (cases v) (simp_all add: doc_key_cases)
next
  fix Y assume a: "deduplicate E X = Inr Y"
  then show "Y = first_per_key (key_of E) {} X" by (rule deduplicate_Inr(1))
next
  fix Y assume a: "deduplicate E X = Inr Y"
  show "subseq Y X" unfolding deduplicate_Inr(1)[OF a] by (rule fpk_subseq)
next
  fix Y assume a: "deduplicate E X = Inr Y"
  show "distinct (map (key_of E) Y)" unfolding deduplicate_Inr(1)[OF a] by (rule fpk_distinct)
next
  fix Y assume a: "deduplicate E X = Inr Y"
  show "key_of E ` set Y = key_of E ` set X" unfolding deduplicate_Inr(1)[OF a] by (simp add: fpk_set)
next
  fix Y d assume a: "deduplicate E X = Inr Y" and d: "d \<in> set Y"
  from d have "d \<in> set (first_per_key (key_of E) {} X)"
    using deduplicate_Inr(1)[OF a] by simp
  then show "find (\<lambda>x. key_of E x = key_of E d) X = Some d" by (rule fpk_first)
next
  assume "\<forall>d \<in> set X. \<exists>k. doc_key E d = Inr k"
  from deduplicate_ok[OF this] show "\<exists>Y. deduplicate E X = Inr Y" by blast
qed

text \<open>
  The claim C2 as stated fails: a document with a source and no chunk number gets its
  source as key, not the first 100 characters of its content, so two such chunks of one
  source are merged.
\<close>

theorem dedup_key_counterexample:
  "doc_key quiet_env doc_P = Inr ''s3://kb/p.txt''
   \<and> spec_dedup_key quiet_env doc_P = ''first part''
   \<and> deduplicate quiet_env [doc_P, doc_Q] = Inr [doc_P]"
proof -
  have "spec_dedup_key quiet_env doc_P = ''first part''"
    by (simp add: spec_dedup_key_def doc_P_def)
  moreover have "deduplicate quiet_env [doc_P, doc_Q] = Inr [doc_P]"
    by (simp add: deduplicate_def key_P key_Q)
  ultimately show ?thesis by (simp add: key_P)
qed


lemma key_of_examples:
  "key_of quiet_env doc_A = ''s3://kb/a.txt0''"
  "key_of quiet_env doc_P = ''s3://kb/p.txt''"
  "key_of quiet_env doc_Q = ''s3://kb/p.txt''"
  by (simp_all add: key_of_def key_A key_P key_Q)

theorem dedup_key_first_occurrence_witness:
  "doc_key quiet_env doc_A = Inr ''s3://kb/a.txt0''
   \<and> doc_key quiet_env doc_P = Inr ''s3://kb/p.txt''
   \<and> doc_key quiet_env doc_R = Inr ''4''
   \<and> doc_key quiet_env doc_S = Inr ''epsilon''
   \<and> doc_key quiet_env doc_N = Inl TypeError
   \<and> doc_key quiet_env doc_E = Inr ''eta''
   \<and> doc_key quiet_env doc_A = Inr (''s3://kb/a.txt'' @ int_str 0)
   \<and> deduplicate quiet_env [doc_A, doc_P, doc_Q, doc_A] = Inr [doc_A, doc_P]
   \<and> subseq [doc_A, doc_P] [doc_A, doc_P, doc_Q, doc_A]
   \<and> find (\<lambda>x. key_of quiet_env x = key_of quiet_env doc_P) [doc_A, doc_P, doc_Q, doc_A]
       = Some doc_P"
proof -
  let ?X = "[doc_A, doc_P, doc_Q, doc_A]"
  note at_A = dedup_key_first_occurrence[of doc_A quiet_env ?X]
  note at_P = dedup_key_first_occurrence[of doc_P quiet_env ?X]
  note at_R = dedup_key_first_occurrence[of doc_R quiet_env ?X]
  note at_S = dedup_key_first_occurrence[of doc_S quiet_env ?X]
  note at_N = dedup_key_first_occurrence[of doc_N quiet_env ?X]
  have "metadata doc_A ''source'' = Some (PStr ''s3://kb/a.txt'')
        \<and> metadata doc_A ''chunk_id'' = Some (PInt 0)
        \<and> ''s3://kb/a.txt'' @ py_str quiet_env (PInt 0) \<noteq> []"
    by (simp add: doc_A_def)
  with at_A[THEN conjunct2, THEN conjunct1]
  have "doc_key quiet_env doc_A = Inr (''s3://kb/a.txt'' @ py_str quiet_env (PInt 0))"
    by (elim allE impE)
  then have kA: "doc_key quiet_env doc_A = Inr ''s3://kb/a.txt0''"
    by (simp add: int_str_def nat_str.simps digit_char_def)
  have "metadata doc_P ''source'' = Some (PStr ''s3://kb/p.txt'')
        \<and> metadata doc_P ''chunk_id'' = None \<and> ''s3://kb/p.txt'' \<noteq> []"
    by (simp add: doc_P_def)
  with at_P[THEN conjunct2, THEN conjunct2, THEN conjunct1]
  have kP: "doc_key quiet_env doc_P = Inr ''s3://kb/p.txt''"
    by (elim allE impE)
  have four: "py_str quiet_env (PInt 4) = ''4''"
    by (simp add: int_str_def nat_str.simps digit_char_def)
  have "metadata doc_R ''source'' = None \<and> metadata doc_R ''chunk_id'' = Some (PInt 4)
        \<and> py_str quiet_env (PInt 4) \<noteq> []"
    by (simp add: doc_R_def int_str_def nat_str.simps digit_char_def)
  with at_R[THEN conjunct2, THEN conjunct2, THEN conjunct2, THEN conjunct1]
  have "doc_key quiet_env doc_R = Inr (py_str quiet_env (PInt 4))"
    by (elim allE impE)
  then have kR: "doc_key quiet_env doc_R = Inr ''4''" by (simp only: four)
  have "metadata doc_S ''source'' = None \<and> metadata doc_S ''chunk_id'' = None"
    by (simp add: doc_S_def)
  with at_S[THEN conjunct2, THEN conjunct2, THEN conjunct2, THEN conjunct2, THEN conjunct1]
  have "doc_key quiet_env doc_S = Inr (take 100 (page_content doc_S))"
    by (elim impE)
  then have kS: "doc_key quiet_env doc_S = Inr ''epsilon''" by (simp add: doc_S_def)
  have "metadata doc_N ''source'' = Some PNone \<and> (\<forall>s. PNone \<noteq> PStr s)"
    by (simp add: doc_N_def)
  with at_N[THEN conjunct2, THEN conjunct2, THEN conjunct2, THEN conjunct2, THEN conjunct2, THEN conjunct1]
  have kN: "doc_key quiet_env doc_N = Inl TypeError"
    by (elim allE impE)
  note at_E = dedup_key_first_occurrence[of doc_E quiet_env ?X]
  have "metadata doc_E ''source'' = None \<and> ([] :: string) = []
            \<or> metadata doc_E ''source'' = Some (PStr [])"
    by (simp add: doc_E_def)
  with at_E[THEN conjunct1]
  have "doc_key quiet_env doc_E =
            Inr (if [] @ (case metadata doc_E ''chunk_id'' of None \<Rightarrow> [] | Some c \<Rightarrow> py_str quiet_env c) = []
                 then take 100 (page_content doc_E)
                 else [] @ (case metadata doc_E ''chunk_id'' of None \<Rightarrow> [] | Some c \<Rightarrow> py_str quiet_env c))"
    by (elim allE impE)
  then have kE: "doc_key quiet_env doc_E = Inr ''eta''" by (simp add: doc_E_def)
  have "metadata doc_A ''source'' = None \<and> ''s3://kb/a.txt'' = []
            \<or> metadata doc_A ''source'' = Some (PStr ''s3://kb/a.txt'')"
    by (simp add: doc_A_def)
  with at_A[THEN conjunct1]
  have "doc_key quiet_env doc_A =
            Inr (if ''s3://kb/a.txt'' @ (case metadata doc_A ''chunk_id'' of None \<Rightarrow> [] | Some c \<Rightarrow> py_str quiet_env c) = []
                 then take 100 (page_content doc_A)
                 else ''s3://kb/a.txt'' @ (case metadata doc_A ''chunk_id'' of None \<Rightarrow> [] | Some c \<Rightarrow> py_str quiet_env c))"
    by (elim allE impE)
  then have kA2: "doc_key quiet_env doc_A = Inr (''s3://kb/a.txt'' @ int_str 0)"
    by (simp add: doc_A_def)
  have all_keys: "\<forall>d \<in> set ?X. \<exists>k. doc_key quiet_env d = Inr k"
    by (simp add: kA kP key_Q)
  note returns = at_P[THEN conjunct2, THEN conjunct2, THEN conjunct2, THEN conjunct2, THEN conjunct2,
      THEN conjunct2, THEN conjunct2]
  note shape = at_P[THEN conjunct2, THEN conjunct2, THEN conjunct2, THEN conjunct2, THEN conjunct2,
      THEN conjunct2, THEN conjunct1]
  from returns all_keys obtain Y where Y: "deduplicate quiet_env ?X = Inr Y"
    by (elim impE exE)
  from shape Y have props: "Y = first_per_key (key_of quiet_env) {} ?X \<and> subseq Y ?X
      \<and> distinct (map (key_of quiet_env) Y)
      \<and> key_of quiet_env ` set Y = key_of quiet_env ` set ?X
      \<and> (\<forall>d \<in> set Y. find (\<lambda>x. key_of quiet_env x = key_of quiet_env d) ?X = Some d)"
    by (elim allE impE)
  then have "Y = [doc_A, doc_P]"
    by (simp add: key_of_examples)
  with Y props show ?thesis using kA kP kR kS kN kE kA2 by simp
qed

lemma variant_lines_unfold:
  "variant_lines q ls =
     filter (\<lambda>s. s \<noteq> [] \<and> py_lower s \<noteq> py_lower q)
       (map (\<lambda>l. py_strip (py_strip_chars ''-* '' l)) ls)"
  by (simp add: variant_lines_def clean_line_def[abs_def])

lemma variants_loop_from_empty:
  "1 \<le> n \<Longrightarrow> variants_loop n q [] ls = take (nat n) (variant_lines q ls)"
  using variants_loop_take[of "[]" n q ls] by simp

lemma generate_variant_queries_on:
  assumes "enable_query_fusion (the_retriever w)"
    and "query_llm E (calls w) (fusion_messages q) = Inr c"
    and "to_plain_text c = Inr t"
  shows "generate_variant_queries E q w =
     (Inr (variants_loop (fusion_variant_count (the_retriever w)) q [] (splitlines t)),
      (log_call (QueryLLMCall (fusion_messages q)) w)
        \<lparr>the_retriever := (the_retriever w)
           \<lparr>last_query_variants :=
              variants_loop (fusion_variant_count (the_retriever w)) q [] (splitlines t)\<rparr>\<rparr>)"
  using assms by (simp add: generate_variant_queries_def Let_def log_call_def)

section \<open>Claims about query fusion\<close>

text \<open>
  Claim C7, as amended. The response is split into lines; each line loses, at both ends,
  its dashes, asterisks and spaces, and then its surrounding whitespace; empty lines and
  lines equal to the query up to case go; the first \<open>fusion_variant_count\<close> remaining
  lines (at least one) are the variants, in response order. With a count of 2, the query
  \<open>v1\<close> and the lines \<open>- v1\<close>, \<open>v1\<close>, \<open>v2\<close> the variants are \<open>v2\<close> alone.
\<close>

theorem variant_parsing:
  "(1 \<le> n \<longrightarrow>
      variants_loop n q [] ls =
        take (nat n)
          (filter (\<lambda>s. s \<noteq> [] \<and> py_lower s \<noteq> py_lower q)
             (map (\<lambda>l. py_strip (py_strip_chars ''-* '' l)) ls)))
   \<and> (enable_query_fusion (the_retriever w) \<and> 1 \<le> fusion_variant_count (the_retriever w)
        \<and> query_llm E (calls w) (fusion_messages q) = Inr c \<and> to_plain_text c = Inr t
      \<longrightarrow> fst (generate_variant_queries E q w) =
           Inr (take (nat (fusion_variant_count (the_retriever w)))
                  (filter (\<lambda>s. s \<noteq> [] \<and> py_lower s \<noteq> py_lower q)
                     (map (\<lambda>l. py_strip (py_strip_chars ''-* '' l)) (splitlines t)))))
   \<and> py_strip_chars ''-* '' l = rev (dropWhile (\<lambda>c. c \<in> {CHR ''-'', CHR ''*'', CHR '' ''})
        (rev (dropWhile (\<lambda>c. c \<in> {CHR ''-'', CHR ''*'', CHR '' ''}) l)))
   \<and> variants_loop 2 ''v1'' [] [''- v1'', ''v1'', ''v2''] = [''v2'']"
proof (intro conjI impI)
  assume "1 \<le> n"
  then show "variants_loop n q [] ls =
        take (nat n)
          (filter (\<lambda>s. s \<noteq> [] \<and> py_lower s \<noteq> py_lower q)
             (map (\<lambda>l. py_strip (py_strip_chars ''-* '' l)) ls))"
    by (simp add: variants_loop_from_empty variant_lines_unfold)
next
  assume a: "enable_query_fusion (the_retriever w) \<and> 1 \<le> fusion_variant_count (the_retriever w)
        \<and> query_llm E (calls w) (fusion_messages q) = Inr c \<and> to_plain_text c = Inr t"
  then have "fst (generate_variant_queries E q w) =
      Inr (variants_loop (fusion_variant_count (the_retriever w)) q [] (splitlines t))"
    by (simp add: generate_variant_queries_on)
  with a show "fst (generate_variant_queries E q w) =
           Inr (take (nat (fusion_variant_count (the_retriever w)))
                  (filter (\<lambda>s. s \<noteq> [] \<and> py_lower s \<noteq> py_lower q)
                     (map (\<lambda>l. py_strip (py_strip_chars ''-* '' l)) (splitlines t))))"
    by (simp add: variants_loop_from_empty variant_lines_unfold)
next
  show "py_strip_chars ''-* '' l = rev (dropWhile (\<lambda>c. c \<in> {CHR ''-'', CHR ''*'', CHR '' ''})
        (rev (dropWhile (\<lambda>c. c \<in> {CHR ''-'', CHR ''*'', CHR '' ''}) l)))"
    by (simp add: py_strip_chars_def strip_where_def)
next
  show "variants_loop 2 ''v1'' [] [''- v1'', ''v1'', ''v2''] = [''v2'']"
    by code_simp
qed

text \<open>
  The claim C7 as stated fails: markers are stripped at the end of a line too, not only
  at its start. The line \<open>**v2**\<close> becomes the variant \<open>v2\<close>, where stripping the
  leading markers and the surrounding whitespace would leave \<open>v2**\<close>.
\<close>

theorem variant_parsing_counterexample:
  "variants_loop 2 ''q'' [] (splitlines ''**v2**'') = [''v2'']
   \<and> spec_parse_variants 2 ''q'' ''**v2**'' = [''v2**'']"
  by code_simp

theorem variant_parsing_witness:
  "fst (generate_variant_queries fusion_env ''v1'' (world_of fusion_settings)) = Inr [''v2'']
   \<and> variants_loop 2 ''v1'' [] [''- v1'', ''v1'', ''v2''] = [''v2'']"
proof -
  let ?w = "world_of fusion_settings"
  let ?t = "''- v1'' @ [CHR 0x0A] @ ''v1'' @ [CHR 0x0A] @ ''v2''"
  note inst = variant_parsing[of 2 "''v1''" "[''- v1'', ''v1'', ''v2'']" ?w fusion_env "Text ?t" ?t]
  have hyp: "enable_query_fusion (the_retriever ?w) \<and> 1 \<le> fusion_variant_count (the_retriever ?w)
        \<and> query_llm fusion_env (calls ?w) (fusion_messages ''v1'') = Inr (Text ?t)
        \<and> to_plain_text (Text ?t) = Inr ?t"
    by (simp add: world_of_def fusion_settings_def base_settings_def retriever_init_def
        fusion_env_def quiet_env_def)
  have two: "fusion_variant_count (the_retriever ?w) = 2"
    by (simp add: world_of_def fusion_settings_def base_settings_def retriever_init_def)
  have lines: "splitlines ?t = [''- v1'', ''v1'', ''v2'']"
    by code_simp
  from inst[THEN conjunct2, THEN conjunct1] hyp
  have "fst (generate_variant_queries fusion_env ''v1'' ?w) =
           Inr (take (nat (fusion_variant_count (the_retriever ?w)))
                  (filter (\<lambda>s. s \<noteq> [] \<and> py_lower s \<noteq> py_lower ''v1'')
                     (map (\<lambda>l. py_strip (py_strip_chars ''-* '' l)) (splitlines ?t))))"
    by (elim impE)
  moreover have "(1::int) \<le> 2" by simp
  with inst[THEN conjunct1]
  have "variants_loop 2 ''v1'' [] [''- v1'', ''v1'', ''v2''] =
        take (nat 2)
          (filter (\<lambda>s. s \<noteq> [] \<and> py_lower s \<noteq> py_lower ''v1'')
             (map (\<lambda>l. py_strip (py_strip_chars ''-* '' l)) [''- v1'', ''v1'', ''v2'']))"
    by (elim impE)
  moreover note inst[THEN conjunct2, THEN conjunct2, THEN conjunct2]
  ultimately show ?thesis by (simp only: two lines)
qed

lemma apply_rerank_none:
  "no_rerank_model (the_retriever w) \<Longrightarrow>
   apply_rerank E q docs w = (py_slice_to (final_k (the_retriever w)) docs, w)"
  by (simp add: apply_rerank_def Let_def)

section \<open>Claims about the construction of the retriever\<close>

text \<open>
  Claim C10. The constructor sets \<open>final_k\<close> to the larger of the configured rerank size
  and 1, and \<open>fusion_variant_count\<close> to the larger of the configured count and 1; both
  are at least 1 for every configuration. So with a configured rerank size of 0 or less
  and no rerank model, a non-empty pool gives exactly one context, and with a
  configured count of 0 or less the fusion keeps the first acceptable line as a variant.
\<close>

theorem retriever_init_floor:
  "final_k (retriever_init st) = max (vector_search_k_rerank st) 1
   \<and> fusion_variant_count (retriever_init st) = max (cfg_fusion_variant_count st) 1
   \<and> 1 \<le> final_k (retriever_init st)
   \<and> 1 \<le> fusion_variant_count (retriever_init st)
   \<and> (vector_search_k_rerank st \<le> 0 \<and> bedrock_rerank_model_id st = None
        \<and> the_retriever w = retriever_init st
      \<longrightarrow> fst (apply_rerank E q (d # ds) w) = [d])
   \<and> (cfg_fusion_variant_count st \<le> 0
      \<longrightarrow> variants_loop (fusion_variant_count (retriever_init st)) q [] ls =
            take 1 (variant_lines q ls))"
proof (intro conjI impI)
  show "final_k (retriever_init st) = max (vector_search_k_rerank st) 1"
    by (simp add: retriever_init_def)
  show "fusion_variant_count (retriever_init st) = max (cfg_fusion_variant_count st) 1"
    by (simp add: retriever_init_def)
  show "1 \<le> final_k (retriever_init st)"
    by (simp add: retriever_init_def)
  show "1 \<le> fusion_variant_count (retriever_init st)"
    by (simp add: retriever_init_def)
next
  assume a: "vector_search_k_rerank st \<le> 0 \<and> bedrock_rerank_model_id st = None
        \<and> the_retriever w = retriever_init st"
  then have "no_rerank_model (the_retriever w)" and "final_k (the_retriever w) = 1"
    by (simp_all add: no_rerank_model_def retriever_init_def)
  then show "fst (apply_rerank E q (d # ds) w) = [d]"
    by (simp add: apply_rerank_none py_slice_to_def)
next
  assume "cfg_fusion_variant_count st \<le> 0"
  then have "fusion_variant_count (retriever_init st) = 1"
    by (simp add: retriever_init_def)
  then show "variants_loop (fusion_variant_count (retriever_init st)) q [] ls =
            take 1 (variant_lines q ls)"
    by (simp add: variants_loop_from_empty)
qed

theorem retriever_init_floor_witness:
  "final_k (retriever_init zero_settings) = 1
   \<and> fusion_variant_count (retriever_init zero_settings) = 1
   \<and> fst (apply_rerank quiet_env ''q'' [doc_A, doc_B] (world_of zero_settings)) = [doc_A]
   \<and> variants_loop (fusion_variant_count (retriever_init zero_settings)) ''q'' [] [''a'', ''b'']
       = [''a'']"
proof -
  note inst = retriever_init_floor[where st = zero_settings and w = "world_of zero_settings"
      and E = quiet_env and q = "''q''" and d = doc_A and ds = "[doc_B]" and ls = "[''a'', ''b'']"]
  have cfg: "vector_search_k_rerank zero_settings = 0" "cfg_fusion_variant_count zero_settings = 0"
    "bedrock_rerank_model_id zero_settings = None"
    "the_retriever (world_of zero_settings) = retriever_init zero_settings"
    by (simp_all add: zero_settings_def base_settings_def world_of_def)
  have lines: "variant_lines ''q'' [''a'', ''b''] = [''a'', ''b'']"
    by code_simp
  from inst[THEN conjunct1] cfg have "final_k (retriever_init zero_settings) = 1" by simp
  moreover from inst[THEN conjunct2, THEN conjunct1] cfg
  have "fusion_variant_count (retriever_init zero_settings) = 1" by simp
  moreover from inst[THEN conjunct2, THEN conjunct2, THEN conjunct2, THEN conjunct2, THEN conjunct1] cfg
  have "fst (apply_rerank quiet_env ''q'' [doc_A, doc_B] (world_of zero_settings)) = [doc_A]"
    by simp
  moreover from inst[THEN conjunct2, THEN conjunct2, THEN conjunct2, THEN conjunct2, THEN conjunct2] cfg
  have "variants_loop (fusion_variant_count (retriever_init zero_settings)) ''q'' [] [''a'', ''b'']
       = [''a'']"
    by (simp add: lines)
  ultimately show ?thesis by simp
qed

section \<open>Lemmas about the world\<close>

text \<open>Every function of the retriever and of the pipeline leaves the configuration as it
  found it.\<close>

lemma same_config_refl: "same_config w w"
  by (simp add: same_config_def)

lemma same_config_trans: "same_config w w1 \<Longrightarrow> same_config w1 w2 \<Longrightarrow> same_config w w2"
  by (simp add: same_config_def)

lemma same_config_log: "same_config w (log_call c w)"
  by (simp add: same_config_def log_call_def)


lemma frame_generate_variant_queries:
  "same_config w (snd (generate_variant_queries E q w))"
  by (simp add: generate_variant_queries_def same_config_def log_call_def Let_def
      split: sum.splits)


lemma frame_search: "same_config w (snd (search E q w))"
  by (simp add: search_def Let_def same_config_log)

lemma frame_search_variants: "same_config w (snd (search_variants E cands vs w))"
proof (induction vs arbitrary: cands w)
  case Nil
  then show ?case by (simp add: same_config_refl)
next
  case (Cons v vs)
  show ?case
  proof (cases "search E v w")
    case (Pair r w1)
    with frame_search[of w E v] have f1: "same_config w w1" by simp
    show ?thesis
    proof (cases r)
      case (Inl e)
      with Pair f1 show ?thesis by simp
    next
      case (Inr ds)
      with Pair have "snd (search_variants E cands (v # vs) w) = snd (search_variants E (cands @ ds) vs w1)"
        by simp
      with same_config_trans[OF f1 Cons.IH[of w1 "cands @ ds"]] show ?thesis by simp
    qed
  qed
qed






lemma invoke_text_generation_world:
  "the_retriever (snd (invoke_text_generation E m sp up w)) = the_retriever w
   \<and> pipeline_settings (snd (invoke_text_generation E m sp up w)) = pipeline_settings w"
  by (simp add: invoke_text_generation_def Let_def log_call_def split: sum.splits)

lemma invoke_text_generation_step:
  "invoke_text_generation E m sp up w = (r, w1) \<Longrightarrow>
   the_retriever w1 = the_retriever w \<and> pipeline_settings w1 = pipeline_settings w"
  using invoke_text_generation_world[of E m sp up w] by simp

lemma rewrite_question_world:
  "the_retriever (snd (rewrite_question E q h w)) = the_retriever w
   \<and> pipeline_settings (snd (rewrite_question E q h w)) = pipeline_settings w"
  by (auto simp: rewrite_question_def Let_def split: option.splits prod.splits sum.splits
      dest: invoke_text_generation_step)

lemma frame_rewrite_question: "same_config w (snd (rewrite_question E q h w))"
  using rewrite_question_world[of E q h w] by (simp add: same_config_def)

lemma rewrite_question_no_history:
  "history = None \<or> history = Some [] \<Longrightarrow> rewrite_question E q history w = (q, w)"
  by (auto simp: rewrite_question_def)


section \<open>Claims about the question rewriter\<close>

lemma tg_search: "search E q w = (r, w1) \<Longrightarrow> text_gen_calls w1 = text_gen_calls w"
  by (auto simp: search_def Let_def log_call_def text_gen_calls_def is_text_gen_def)

lemma tg_generate_variant_queries:
  "generate_variant_queries E q w = (r, w1) \<Longrightarrow> text_gen_calls w1 = text_gen_calls w"
  by (auto simp: generate_variant_queries_def Let_def log_call_def text_gen_calls_def
      is_text_gen_def split: if_splits sum.splits)

lemma tg_generate_hypothetical_document:
  "generate_hypothetical_document E q w = (r, w1) \<Longrightarrow> text_gen_calls w1 = text_gen_calls w"
  by (auto simp: generate_hypothetical_document_def Let_def log_call_def text_gen_calls_def
      is_text_gen_def split: if_splits sum.splits)

lemma tg_search_variants:
  "search_variants E cands vs w = (r, w1) \<Longrightarrow> text_gen_calls w1 = text_gen_calls w"
proof (induction vs arbitrary: cands w)
  case Nil
  then show ?case by simp
next
  case (Cons v vs)
  then show ?case
    by (auto split: prod.splits sum.splits dest: tg_search)
qed

lemma tg_retrieve_candidates:
  "retrieve_candidates E q w = (r, w1) \<Longrightarrow> text_gen_calls w1 = text_gen_calls w"
  by (auto simp: retrieve_candidates_def split: prod.splits sum.splits if_splits
      dest!: tg_search tg_generate_variant_queries tg_search_variants
        tg_generate_hypothetical_document)

lemma tg_invoke_rerank:
  "invoke_rerank E m q docs n w = (r, w1) \<Longrightarrow> text_gen_calls w1 = text_gen_calls w"
  by (auto simp: invoke_rerank_def Let_def log_call_def text_gen_calls_def
      is_text_gen_def split: if_splits sum.splits)

lemma tg_apply_rerank:
  "apply_rerank E q docs w = (r, w1) \<Longrightarrow> text_gen_calls w1 = text_gen_calls w"
  by (auto simp: apply_rerank_def Let_def split: if_splits prod.splits sum.splits
      dest!: tg_invoke_rerank)

lemma tg_get_relevant_documents:
  "get_relevant_documents E q w = (r, w1) \<Longrightarrow> text_gen_calls w1 = text_gen_calls w"
  by (auto simp: get_relevant_documents_def split: prod.splits sum.splits
      dest!: tg_retrieve_candidates tg_apply_rerank)

lemma tg_log_answer: "text_gen_calls (log_call (AnswerLLMCall ms) w) = text_gen_calls w"
  by (simp add: log_call_def text_gen_calls_def is_text_gen_def)

lemma run_no_history:
  assumes "history = None \<or> history = Some []"
  shows "text_gen_calls (snd (run E q history w)) = text_gen_calls w"
    and "run E q history w = (Inr res, w') \<Longrightarrow> rewritten_question res = q"
proof -
  from assms have rw: "rewrite_question E q history w = (q, w)"
    by (rule rewrite_question_no_history)
  obtain r2 w2 where s2: "get_relevant_documents E q w = (r2, w2)"
    by (cases "get_relevant_documents E q w")
  then have t2: "text_gen_calls w2 = text_gen_calls w" by (rule tg_get_relevant_documents)
  from rw s2 t2 show "text_gen_calls (snd (run E q history w)) = text_gen_calls w"
    by (simp add: run_def Let_def tg_log_answer split: sum.splits)
  assume "run E q history w = (Inr res, w')"
  with rw s2 show "rewritten_question res = q"
    by (auto simp: run_def Let_def split: sum.splits)
qed

text \<open>
  Claim C9. When the history is absent or empty, the rewriter returns the question as it
  is and leaves the world, with its log of calls, as it found it; the result of the
  request has the question as rewritten question; and the whole request makes no call
  to the text generation service.
\<close>

theorem no_history_no_rewrite:
  "history = None \<or> history = Some [] \<longrightarrow>
     rewrite_question E q history w = (q, w)
     \<and> (\<forall>res w'. run E q history w = (Inr res, w') \<longrightarrow> rewritten_question res = q)
     \<and> filter is_text_gen (calls (snd (run E q history w))) = filter is_text_gen (calls w)"
proof (intro impI conjI allI)
  assume a: "history = None \<or> history = Some []"
  then show "rewrite_question E q history w = (q, w)" by (rule rewrite_question_no_history)
  from run_no_history(1)[OF a]
  show "filter is_text_gen (calls (snd (run E q history w))) = filter is_text_gen (calls w)"
    by (simp add: text_gen_calls_def)
next
  fix res w'
  assume "history = None \<or> history = Some []" and "run E q history w = (Inr res, w')"
  then show "rewritten_question res = q" by (rule run_no_history(2))
qed

theorem no_history_no_rewrite_witness:
  "rewrite_question quiet_env ''What is X?'' None (world_of base_settings)
     = (''What is X?'', world_of base_settings)
   \<and> rewrite_question quiet_env ''What is X?'' (Some []) (world_of base_settings)
     = (''What is X?'', world_of base_settings)
   \<and> (\<exists>res w'. run quiet_env ''What is X?'' None (world_of base_settings) = (Inr res, w')
        \<and> rewritten_question res = ''What is X?'')
   \<and> filter is_text_gen (calls (snd (run quiet_env ''What is X?'' None (world_of base_settings))))
      = []"
proof -
  let ?w = "world_of base_settings"
  let ?q = "''What is X?''"
  have absent: "(None :: turn list option) = None \<or> None = Some []" by simp
  have empty: "Some ([] :: turn list) = None \<or> Some ([] :: turn list) = Some []" by simp
  note inst = no_history_no_rewrite[of None quiet_env ?q ?w, rule_format, OF absent]
  note inst_empty = no_history_no_rewrite[of "Some []" quiet_env ?q ?w, rule_format, OF empty]
  have "(case fst (run quiet_env ?q None ?w) of Inl e \<Rightarrow> False | Inr res \<Rightarrow> True)"
    by code_simp
  then obtain res w' where r: "run quiet_env ?q None ?w = (Inr res, w')"
    by (cases "run quiet_env ?q None ?w") (auto split: sum.splits)
  with inst have "rewritten_question res = ?q" by simp
  with r have ex: "\<exists>res w'. run quiet_env ?q None ?w = (Inr res, w') \<and> rewritten_question res = ?q"
    by blast
  have "calls ?w = []" by (simp add: world_of_def)
  with inst inst_empty ex show ?thesis by simp
qed

section \<open>Claims about truncation without a rerank model\<close>











section \<open>Claims about the state shared by requests\<close>





section \<open>Lemmas about reranking\<close>










section \<open>Claims about the rerank stage\<close>


text \<open>
  The bound rests on that interface: the code does not cut the reranked list. A service
  that returned three results when two were asked for would give the request three
  contexts with \<open>final_k = 2\<close>.
\<close>

lemma reply_beyond_top_n:
  "final_k (the_retriever (world_of rerank_settings)) = 2
   \<and> \<not> isl (fst (run greedy_rerank_env ''q'' None (world_of rerank_settings)))
   \<and> length (contexts (projr (fst (run greedy_rerank_env ''q'' None (world_of rerank_settings)))))
       = 3"
  by code_simp







section \<open>Claims about failures of the generation calls\<close>

lemma generate_variant_queries_fails:
  assumes "enable_query_fusion (the_retriever w)"
    and "\<forall>cs q'. query_llm E cs (fusion_messages q') = Inl e"
  shows "fst (generate_variant_queries E q w) = Inl e"
  using assms by (simp add: generate_variant_queries_def Let_def)

lemma generate_hypothetical_document_fails:
  assumes "enable_hyde (the_retriever w)"
    and "\<forall>cs q'. query_llm E cs (hyde_messages q') = Inl e"
  shows "fst (generate_hypothetical_document E q w) = Inl e"
  using assms by (simp add: generate_hypothetical_document_def Let_def)

lemma retrieve_candidates_fusion_fails:
  assumes "enable_query_fusion (the_retriever w)"
    and "\<forall>cs q'. query_llm E cs (fusion_messages q') = Inl e"
  shows "\<exists>e'. fst (retrieve_candidates E q w) = Inl e'"
    and "similarity_search E (calls w) q (primary_k (the_retriever w)) = Inr base
         \<Longrightarrow> fst (retrieve_candidates E q w) = Inl e"
proof -
  obtain r1 w1 where s1: "search E q w = (r1, w1)" by (cases "search E q w")
  with frame_search[of w E q] assms(1) have on: "enable_query_fusion (the_retriever w1)"
    by (simp add: same_config_def)
  obtain r2 w2 where s2: "generate_variant_queries E q w1 = (r2, w2)"
    by (cases "generate_variant_queries E q w1")
  with generate_variant_queries_fails[OF on assms(2), of q] have r2: "r2 = Inl e" by simp
  from s1 s2 r2 show "\<exists>e'. fst (retrieve_candidates E q w) = Inl e'"
    by (cases r1) (simp_all add: retrieve_candidates_def)
  assume "similarity_search E (calls w) q (primary_k (the_retriever w)) = Inr base"
  with s1 have "r1 = Inr base" by (simp add: search_def Let_def)
  with s1 s2 r2 show "fst (retrieve_candidates E q w) = Inl e"
    by (simp add: retrieve_candidates_def)
qed

lemma retrieve_candidates_hyde_fails:
  assumes "enable_hyde (the_retriever w)"
    and "\<forall>cs q'. query_llm E cs (hyde_messages q') = Inl e"
  shows "\<exists>e'. fst (retrieve_candidates E q w) = Inl e'"
proof -
  obtain r1 w1 where s1: "search E q w = (r1, w1)" by (cases "search E q w")
  with frame_search[of w E q] have f1: "same_config w w1" by simp
  obtain r2 w2 where s2: "generate_variant_queries E q w1 = (r2, w2)"
    by (cases "generate_variant_queries E q w1")
  with frame_generate_variant_queries[of w1 E q] have "same_config w1 w2" by simp
  with f1 have f2: "same_config w w2" by (rule same_config_trans)
  show ?thesis
  proof (cases r1)
    case Inl
    with s1 show ?thesis by (simp add: retrieve_candidates_def)
  next
    case (Inr cands)
    note c1 = this
    show ?thesis
    proof (cases r2)
      case Inl
      with s1 c1 s2 show ?thesis by (simp add: retrieve_candidates_def)
    next
      case (Inr vs)
      note c2 = this
      obtain r3 w3 where s3: "search_variants E cands vs w2 = (r3, w3)"
        by (cases "search_variants E cands vs w2")
      with frame_search_variants[of w2 E cands vs] have "same_config w2 w3" by simp
      with f2 have "same_config w w3" by (rule same_config_trans)
      with assms(1) have on: "enable_hyde (the_retriever w3)" by (simp add: same_config_def)
      obtain r4 w4 where s4: "generate_hypothetical_document E q w3 = (r4, w4)"
        by (cases "generate_hypothetical_document E q w3")
      with generate_hypothetical_document_fails[OF on assms(2), of q] have r4: "r4 = Inl e" by simp
      from s1 c1 s2 c2 s3 s4 r4 show ?thesis
        by (cases r3) (simp_all add: retrieve_candidates_def)
    qed
  qed
qed

lemma run_retrieval_fails:
  assumes "\<And>q1 w1. same_config w w1 \<Longrightarrow> \<exists>e'. fst (retrieve_candidates E q1 w1) = Inl e'"
  shows "\<exists>e'. fst (run E q h w) = Inl e'"
proof -
  obtain q1 w1 where s1: "rewrite_question E q h w = (q1, w1)"
    by (cases "rewrite_question E q h w")
  with frame_rewrite_question[of w E q h] have "same_config w w1" by simp
  from assms[OF this, of q1] obtain e' where "fst (retrieve_candidates E q1 w1) = Inl e'" by blast
  then obtain w2 where "retrieve_candidates E q1 w1 = (Inl e', w2)"
    by (cases "retrieve_candidates E q1 w1") simp
  with s1 show ?thesis by (simp add: run_def get_relevant_documents_def)
qed


lemma run_retrieval_error:
  assumes "rewrite_question E q h w = (q1, w1)"
    and "fst (retrieve_candidates E q1 w1) = Inl e"
  shows "fst (run E q h w) = Inl e"
proof -
  from assms(2) obtain w2 where "retrieve_candidates E q1 w1 = (Inl e, w2)"
    by (cases "retrieve_candidates E q1 w1") simp
  with assms(1) show ?thesis by (simp add: run_def get_relevant_documents_def)
qed

lemma retrieve_candidates_fusion_call_fails:
  assumes "enable_query_fusion (the_retriever w)"
    and "similarity_search E (calls w) q (primary_k (the_retriever w)) = Inr base"
    and "query_llm E (calls w @ [SearchCall q (primary_k (the_retriever w))])
           (fusion_messages q) = Inl e"
  shows "fst (retrieve_candidates E q w) = Inl e"
  using assms
  by (simp add: retrieve_candidates_def search_def generate_variant_queries_def
      log_call_def Let_def)

lemma retrieve_candidates_hyde_call_fails:
  assumes "enable_hyde (the_retriever w)"
    and s1: "search E q w = (Inr base, w2)"
    and s2: "generate_variant_queries E q w2 = (Inr vs, w3)"
    and s3: "search_variants E base vs w3 = (Inr cands, w4)"
    and "query_llm E (calls w4) (hyde_messages q) = Inl e"
  shows "fst (retrieve_candidates E q w) = Inl e"
proof -
  from frame_search[of w E q] s1 have "same_config w w2" by simp
  moreover from frame_generate_variant_queries[of w2 E q] s2 have "same_config w2 w3" by simp
  ultimately have "same_config w w3" by (rule same_config_trans)
  moreover from frame_search_variants[of w3 E base vs] s3 have "same_config w3 w4" by simp
  ultimately have "same_config w w4" by (rule same_config_trans)
  with assms(1) have on: "enable_hyde (the_retriever w4)" by (simp add: same_config_def)
  with assms(5) have "fst (generate_hypothetical_document E q w4) = Inl e"
    by (simp add: generate_hypothetical_document_def Let_def)
  then obtain w5 where "generate_hypothetical_document E q w4 = (Inl e, w5)"
    by (cases "generate_hypothetical_document E q w4") simp
  with s1 s2 s3 show ?thesis by (simp add: retrieve_candidates_def)
qed

lemma retrieve_candidates_hyde_only_call_fails:
  assumes "\<not> enable_query_fusion (the_retriever w)" and "enable_hyde (the_retriever w)"
    and "similarity_search E (calls w) q (primary_k (the_retriever w)) = Inr base"
    and "query_llm E (calls w @ [SearchCall q (primary_k (the_retriever w))])
           (hyde_messages q) = Inl e"
  shows "fst (retrieve_candidates E q w) = Inl e"
  using assms
  by (simp add: retrieve_candidates_def search_def generate_variant_queries_def
      generate_hypothetical_document_def log_call_def Let_def)

text \<open>
  Claim C1. The code does not recover an error of the fusion generation call or of the
  HyDE generation call: \<^verbatim>\<open>_generate_variant_queries\<close> and
  \<^verbatim>\<open>_generate_hypothetical_document\<close> call the model outside any \<^verbatim>\<open>try\<close>, and no
  caller catches. Whatever the history, when the base search has succeeded and the
  fusion call of the request raises, the retrieval and the request raise that
  exception; so does the request when the searches and the fusion stage have succeeded
  and the HyDE call raises, in particular with query fusion off, where the HyDE call
  follows the base search. Only this one call has to fail: the model may answer
  every other call. With a query model that raises on every call, the request raises
  whenever query fusion or HyDE is on, whatever the search service does.
\<close>

theorem generation_failure_propagates:
  "(rewrite_question E q h w = (q1, w1)
        \<and> enable_query_fusion (the_retriever w)
        \<and> similarity_search E (calls w1) q1 (primary_k (the_retriever w)) = Inr base
        \<and> query_llm E (calls w1 @ [SearchCall q1 (primary_k (the_retriever w))])
             (fusion_messages q1) = Inl e
      \<longrightarrow> fst (get_relevant_documents E q1 w1) = Inl e \<and> fst (run E q h w) = Inl e)
   \<and> (rewrite_question E q h w = (q1, w1)
        \<and> \<not> enable_query_fusion (the_retriever w) \<and> enable_hyde (the_retriever w)
        \<and> similarity_search E (calls w1) q1 (primary_k (the_retriever w)) = Inr base
        \<and> query_llm E (calls w1 @ [SearchCall q1 (primary_k (the_retriever w))])
             (hyde_messages q1) = Inl e
      \<longrightarrow> fst (get_relevant_documents E q1 w1) = Inl e \<and> fst (run E q h w) = Inl e)
   \<and> (rewrite_question E q h w = (q1, w1)
        \<and> enable_hyde (the_retriever w)
        \<and> search E q1 w1 = (Inr base, w2)
        \<and> generate_variant_queries E q1 w2 = (Inr vs, w3)
        \<and> search_variants E base vs w3 = (Inr cands, w4)
        \<and> query_llm E (calls w4) (hyde_messages q1) = Inl e
      \<longrightarrow> fst (get_relevant_documents E q1 w1) = Inl e \<and> fst (run E q h w) = Inl e)
   \<and> (enable_query_fusion (the_retriever w)
        \<and> (\<forall>cs q'. query_llm E cs (fusion_messages q') = Inl e)
      \<longrightarrow> (\<exists>e'. fst (run E q h w) = Inl e'))
   \<and> (enable_hyde (the_retriever w)
        \<and> (\<forall>cs q'. query_llm E cs (hyde_messages q') = Inl e)
      \<longrightarrow> (\<exists>e'. fst (run E q h w) = Inl e'))"
proof -
  have cfg: "same_config w w1" if "rewrite_question E q h w = (q1, w1)"
    using frame_rewrite_question[of w E q h] that by simp
  have up: "fst (get_relevant_documents E q1 w1) = Inl e \<and> fst (run E q h w) = Inl e"
    if rw: "rewrite_question E q h w = (q1, w1)"
      and rc: "fst (retrieve_candidates E q1 w1) = Inl e"
  proof
    from rc obtain w5 where "retrieve_candidates E q1 w1 = (Inl e, w5)"
      by (cases "retrieve_candidates E q1 w1") simp
    then show "fst (get_relevant_documents E q1 w1) = Inl e"
      by (simp add: get_relevant_documents_def)
    from rw rc show "fst (run E q h w) = Inl e" by (rule run_retrieval_error)
  qed
  have c1: "fst (get_relevant_documents E q1 w1) = Inl e \<and> fst (run E q h w) = Inl e"
    if a: "rewrite_question E q h w = (q1, w1)
        \<and> enable_query_fusion (the_retriever w)
        \<and> similarity_search E (calls w1) q1 (primary_k (the_retriever w)) = Inr base
        \<and> query_llm E (calls w1 @ [SearchCall q1 (primary_k (the_retriever w))])
             (fusion_messages q1) = Inl e"
  proof -
    from a cfg have s: "same_config w w1" by simp
    with a have "fst (retrieve_candidates E q1 w1) = Inl e"
      using retrieve_candidates_fusion_call_fails[of w1 E q1 base e]
      by (simp add: same_config_def)
    with a show ?thesis using up by simp
  qed
  have c2: "fst (get_relevant_documents E q1 w1) = Inl e \<and> fst (run E q h w) = Inl e"
    if a: "rewrite_question E q h w = (q1, w1)
        \<and> \<not> enable_query_fusion (the_retriever w) \<and> enable_hyde (the_retriever w)
        \<and> similarity_search E (calls w1) q1 (primary_k (the_retriever w)) = Inr base
        \<and> query_llm E (calls w1 @ [SearchCall q1 (primary_k (the_retriever w))])
             (hyde_messages q1) = Inl e"
  proof -
    from a cfg have s: "same_config w w1" by simp
    with a have "fst (retrieve_candidates E q1 w1) = Inl e"
      using retrieve_candidates_hyde_only_call_fails[of w1 E q1 base e]
      by (simp add: same_config_def)
    with a show ?thesis using up by simp
  qed
  have c3: "fst (get_relevant_documents E q1 w1) = Inl e \<and> fst (run E q h w) = Inl e"
    if a: "rewrite_question E q h w = (q1, w1)
        \<and> enable_hyde (the_retriever w)
        \<and> search E q1 w1 = (Inr base, w2)
        \<and> generate_variant_queries E q1 w2 = (Inr vs, w3)
        \<and> search_variants E base vs w3 = (Inr cands, w4)
        \<and> query_llm E (calls w4) (hyde_messages q1) = Inl e"
  proof -
    from a cfg have s: "same_config w w1" by simp
    with a have on: "enable_hyde (the_retriever w1)" by (simp add: same_config_def)
    from a have "fst (retrieve_candidates E q1 w1) = Inl e"
      using retrieve_candidates_hyde_call_fails[OF on, of E q1 base w2 vs w3 cands w4 e]
      by simp
    with a show ?thesis using up by simp
  qed
  have c4: "\<exists>e'. fst (run E q h w) = Inl e'"
    if a: "enable_query_fusion (the_retriever w)
        \<and> (\<forall>cs q'. query_llm E cs (fusion_messages q') = Inl e)"
  proof (rule run_retrieval_fails)
    fix q1 w1 assume "same_config w w1"
    with a have "enable_query_fusion (the_retriever w1)" by (simp add: same_config_def)
    with a show "\<exists>e'. fst (retrieve_candidates E q1 w1) = Inl e'"
      using retrieve_candidates_fusion_fails(1)[of w1 E e q1] by blast
  qed
  have c5: "\<exists>e'. fst (run E q h w) = Inl e'"
    if a: "enable_hyde (the_retriever w)
        \<and> (\<forall>cs q'. query_llm E cs (hyde_messages q') = Inl e)"
  proof (rule run_retrieval_fails)
    fix q1 w1 assume "same_config w w1"
    with a have "enable_hyde (the_retriever w1)" by (simp add: same_config_def)
    with a show "\<exists>e'. fst (retrieve_candidates E q1 w1) = Inl e'"
      using retrieve_candidates_hyde_fails[of w1 E e q1] by blast
  qed
  from c1 c2 c3 c4 c5 show ?thesis by blast
qed

lemma no_fusion_services:
  "query_llm no_fusion_env cs ms = Inl (BackendError ''generation unavailable'')"
  "similarity_search no_fusion_env cs q k = Inr [doc_A, doc_B, doc_C]"
  by (simp_all add: no_fusion_env_def quiet_env_def)

lemma world_of_fusion:
  "enable_query_fusion (the_retriever (world_of fusion_settings))"
  "primary_k (the_retriever (world_of fusion_settings)) = 3"
  "calls (world_of fusion_settings) = []"
  by (simp_all add: world_of_def fusion_settings_def base_settings_def retriever_init_def)

lemma world_of_hyde:
  "enable_hyde (the_retriever (world_of hyde_settings))"
  "\<not> enable_query_fusion (the_retriever (world_of hyde_settings))"
  "primary_k (the_retriever (world_of hyde_settings)) = 3"
  "calls (world_of hyde_settings) = []"
  by (simp_all add: world_of_def hyde_settings_def base_settings_def retriever_init_def)

lemma world_of_fusion_hyde:
  "enable_hyde (the_retriever (world_of fusion_hyde_settings))"
  "enable_query_fusion (the_retriever (world_of fusion_hyde_settings))"
  by (simp_all add: world_of_def fusion_hyde_settings_def fusion_settings_def
      base_settings_def retriever_init_def)

lemma flaky_services:
  "query_llm flaky_env cs ms =
     (if list_ex is_query_call cs then Inr (Text ''v1'') else Inl (BackendError ''throttled''))"
  "similarity_search flaky_env cs q k = Inr [doc_A, doc_B, doc_C]"
  by (simp_all add: flaky_env_def quiet_env_def)

lemma hyde_down_services:
  "query_llm hyde_down_env cs (hyde_messages q) = Inl (BackendError ''generation unavailable'')"
  "query_llm hyde_down_env cs (fusion_messages q) = Inr (Text ''v1'')"
  by (simp_all add: hyde_down_env_def quiet_env_def hyde_messages_def fusion_messages_def)

text \<open>
  The failing input of claim C1: the base search returns three documents, the query
  model is unavailable, and the request raises the error of the generation call, with
  query fusion on as with HyDE on, where the claim has it return a complete result.
  With both strategies off the same services give a result. A query model that fails
  on its first call only, or on the HyDE prompt only, has the same effect.
\<close>

theorem generation_failure_counterexample:
  "enable_query_fusion (the_retriever (world_of fusion_settings))
   \<and> similarity_search no_fusion_env (calls (world_of fusion_settings)) ''q''
        (primary_k (the_retriever (world_of fusion_settings))) = Inr [doc_A, doc_B, doc_C]
   \<and> isl (fst (run no_fusion_env ''q'' None (world_of fusion_settings)))
   \<and> projl (fst (run no_fusion_env ''q'' None (world_of fusion_settings)))
       = BackendError ''generation unavailable''
   \<and> enable_hyde (the_retriever (world_of hyde_settings))
   \<and> isl (fst (run no_fusion_env ''q'' None (world_of hyde_settings)))
   \<and> projl (fst (run no_fusion_env ''q'' None (world_of hyde_settings)))
       = BackendError ''generation unavailable''
   \<and> \<not> isl (fst (run no_fusion_env ''q'' None (world_of base_settings)))
   \<and> isl (fst (run flaky_env ''q'' None (world_of fusion_settings)))
   \<and> projl (fst (run flaky_env ''q'' None (world_of fusion_settings)))
       = BackendError ''throttled''
   \<and> isl (fst (run hyde_down_env ''q'' None (world_of fusion_hyde_settings)))
   \<and> projl (fst (run hyde_down_env ''q'' None (world_of fusion_hyde_settings)))
       = BackendError ''generation unavailable''"
proof -
  have "isl (fst (run no_fusion_env ''q'' None (world_of fusion_settings)))
   \<and> projl (fst (run no_fusion_env ''q'' None (world_of fusion_settings)))
       = BackendError ''generation unavailable''
   \<and> isl (fst (run no_fusion_env ''q'' None (world_of hyde_settings)))
   \<and> projl (fst (run no_fusion_env ''q'' None (world_of hyde_settings)))
       = BackendError ''generation unavailable''
   \<and> \<not> isl (fst (run no_fusion_env ''q'' None (world_of base_settings)))
   \<and> isl (fst (run flaky_env ''q'' None (world_of fusion_settings)))
   \<and> projl (fst (run flaky_env ''q'' None (world_of fusion_settings)))
       = BackendError ''throttled''
   \<and> isl (fst (run hyde_down_env ''q'' None (world_of fusion_hyde_settings)))
   \<and> projl (fst (run hyde_down_env ''q'' None (world_of fusion_hyde_settings)))
       = BackendError ''generation unavailable''"
    by code_simp
  then show ?thesis
    by (simp add: world_of_fusion world_of_hyde no_fusion_services)
qed

theorem generation_failure_propagates_witness:
  "fst (run flaky_env ''q'' None (world_of fusion_settings)) = Inl (BackendError ''throttled'')
   \<and> fst (get_relevant_documents flaky_env ''q'' (world_of fusion_settings))
       = Inl (BackendError ''throttled'')
   \<and> fst (run flaky_env ''q'' None (world_of hyde_settings)) = Inl (BackendError ''throttled'')
   \<and> fst (run hyde_down_env ''q'' None (world_of fusion_hyde_settings))
       = Inl (BackendError ''generation unavailable'')
   \<and> (\<exists>e'. fst (run no_fusion_env ''q'' None (world_of fusion_settings)) = Inl e')
   \<and> (\<exists>e'. fst (run no_fusion_env ''q'' None (world_of hyde_settings)) = Inl e')"
proof -
  let ?t = "BackendError ''throttled''"
  let ?e = "BackendError ''generation unavailable''"
  let ?wf = "world_of fusion_settings"
  let ?wh = "world_of hyde_settings"
  let ?wb = "world_of fusion_hyde_settings"
  note fusion = generation_failure_propagates[where E = flaky_env and q = "''q''" and h = None
      and w = ?wf and ?q1.0 = "''q''" and ?w1.0 = ?wf and base = "[doc_A, doc_B, doc_C]"
      and e = ?t]
  have "rewrite_question flaky_env ''q'' None ?wf = (''q'', ?wf)
        \<and> enable_query_fusion (the_retriever ?wf)
        \<and> similarity_search flaky_env (calls ?wf) ''q'' (primary_k (the_retriever ?wf))
            = Inr [doc_A, doc_B, doc_C]
        \<and> query_llm flaky_env (calls ?wf @ [SearchCall ''q'' (primary_k (the_retriever ?wf))])
             (fusion_messages ''q'') = Inl ?t"
    by (simp add: rewrite_question_def world_of_fusion flaky_services is_query_call_def)
  with fusion[THEN conjunct1]
  have a: "fst (get_relevant_documents flaky_env ''q'' ?wf) = Inl ?t
        \<and> fst (run flaky_env ''q'' None ?wf) = Inl ?t"
    by (elim impE)

  note hyde = generation_failure_propagates[where E = flaky_env and q = "''q''" and h = None
      and w = ?wh and ?q1.0 = "''q''" and ?w1.0 = ?wh and base = "[doc_A, doc_B, doc_C]"
      and e = ?t]
  have "rewrite_question flaky_env ''q'' None ?wh = (''q'', ?wh)
        \<and> \<not> enable_query_fusion (the_retriever ?wh) \<and> enable_hyde (the_retriever ?wh)
        \<and> similarity_search flaky_env (calls ?wh) ''q'' (primary_k (the_retriever ?wh))
            = Inr [doc_A, doc_B, doc_C]
        \<and> query_llm flaky_env (calls ?wh @ [SearchCall ''q'' (primary_k (the_retriever ?wh))])
             (hyde_messages ''q'') = Inl ?t"
    by (simp add: rewrite_question_def world_of_hyde flaky_services is_query_call_def)
  with hyde[THEN conjunct2, THEN conjunct1]
  have b: "fst (get_relevant_documents flaky_env ''q'' ?wh) = Inl ?t
        \<and> fst (run flaky_env ''q'' None ?wh) = Inl ?t"
    by (elim impE)

  have "case search hyde_down_env ''q'' ?wb of
          (Inl e, w2) \<Rightarrow> False
        | (Inr base, w2) \<Rightarrow>
            (case generate_variant_queries hyde_down_env ''q'' w2 of
               (Inl e, w3) \<Rightarrow> False
             | (Inr vs, w3) \<Rightarrow>
                 (case search_variants hyde_down_env base vs w3 of
                    (Inl e, w4) \<Rightarrow> False
                  | (Inr cands, w4) \<Rightarrow> True))"
    by code_simp
  note stages = this
  obtain r1 w2 where s1: "search hyde_down_env ''q'' ?wb = (r1, w2)"
    by (cases "search hyde_down_env ''q'' ?wb")
  with stages obtain base where b1: "r1 = Inr base" by (cases r1) simp_all
  obtain r2 w3 where s2: "generate_variant_queries hyde_down_env ''q'' w2 = (r2, w3)"
    by (cases "generate_variant_queries hyde_down_env ''q'' w2")
  with stages s1 b1 obtain vs where b2: "r2 = Inr vs" by (cases r2) simp_all
  obtain r3 w4 where s3: "search_variants hyde_down_env base vs w3 = (r3, w4)"
    by (cases "search_variants hyde_down_env base vs w3")
  with stages s1 b1 s2 b2 obtain cands where b3: "r3 = Inr cands" by (cases r3) simp_all
  from s1 b1 s2 b2 s3 b3 have
    st: "search hyde_down_env ''q'' ?wb = (Inr base, w2)"
        "generate_variant_queries hyde_down_env ''q'' w2 = (Inr vs, w3)"
        "search_variants hyde_down_env base vs w3 = (Inr cands, w4)"
    by simp_all
  note both = generation_failure_propagates[where E = hyde_down_env and q = "''q''"
      and h = None and w = ?wb and ?q1.0 = "''q''" and ?w1.0 = ?wb and base = base
      and ?w2.0 = w2 and vs = vs and ?w3.0 = w3 and cands = cands and ?w4.0 = w4 and e = ?e]
  from st have "rewrite_question hyde_down_env ''q'' None ?wb = (''q'', ?wb)
        \<and> enable_hyde (the_retriever ?wb)
        \<and> search hyde_down_env ''q'' ?wb = (Inr base, w2)
        \<and> generate_variant_queries hyde_down_env ''q'' w2 = (Inr vs, w3)
        \<and> search_variants hyde_down_env base vs w3 = (Inr cands, w4)
        \<and> query_llm hyde_down_env (calls w4) (hyde_messages ''q'') = Inl ?e"
    by (simp add: rewrite_question_def world_of_fusion_hyde hyde_down_services)
  with both[THEN conjunct2, THEN conjunct2, THEN conjunct1]
  have c: "fst (get_relevant_documents hyde_down_env ''q'' ?wb) = Inl ?e
        \<and> fst (run hyde_down_env ''q'' None ?wb) = Inl ?e"
    by (elim impE)

  note always = generation_failure_propagates[where E = no_fusion_env and q = "''q''"
      and h = None and w = ?wf and e = ?e]
  have "enable_query_fusion (the_retriever ?wf)
        \<and> (\<forall>cs q'. query_llm no_fusion_env cs (fusion_messages q') = Inl ?e)"
    by (simp add: world_of_fusion no_fusion_services)
  with always[THEN conjunct2, THEN conjunct2, THEN conjunct2, THEN conjunct1]
  have d: "\<exists>e'. fst (run no_fusion_env ''q'' None ?wf) = Inl e'"
    by (elim impE)
  note always_hyde = generation_failure_propagates[where E = no_fusion_env and q = "''q''"
      and h = None and w = ?wh and e = ?e]
  have "enable_hyde (the_retriever ?wh)
        \<and> (\<forall>cs q'. query_llm no_fusion_env cs (hyde_messages q') = Inl ?e)"
    by (simp add: world_of_hyde no_fusion_services)
  with always_hyde[THEN conjunct2, THEN conjunct2, THEN conjunct2, THEN conjunct2]
  have e: "\<exists>e'. fst (run no_fusion_env ''q'' None ?wh) = Inl e'"
    by (elim impE)
  from a b c d e show ?thesis by simp
qed

end
